theory Spec2Isabelle
  imports Main "HOL-Library.Word" "HOL-Library.AList" "HOL-Library.Option_ord"
begin

section \<open>Values, identifiers and documents\<close>

text \<open>
  A BSON ObjectId is twelve bytes; \<open>str\<close> of it is its 24 lower-case hexadecimal
  digits, and \<open>ObjectId(s)\<close> reads a string of 24 hexadecimal digits back
  (\<open>InvalidId\<close> otherwise).
\<close>

type_synonym objectid = "96 word"

datatype error =
    StoreUnavailable
  | WriteError
  | TypeError
  | KeyError
  | InvalidId
  | ValidationError
  | OverflowError

text \<open>
  The values a document field can hold. \<open>VTime\<close> is a datetime (the creation
  timestamp), \<open>VOid\<close> the store-native identifier. Python strings are \<open>string\<close>;
  the handlers below never look inside one except to read an ObjectId.
\<close>

datatype val =
    VNull
  | VBool bool
  | VInt int
  | VStr string
  | VTime int
  | VOid objectid
  | VList "val list"
  | VDict "(string \<times> val) list"

text \<open>
  A document is a Python dict: an association list in insertion order. Assignment
  \<open>d[k] = v\<close> is \<open>AList.update k v d\<close> (in place when the key is there, appended
  otherwise); lookup is \<open>map_of d k\<close>.
\<close>

type_synonym doc = "(string \<times> val) list"

definition hexdigit :: "nat \<Rightarrow> char" where
  "hexdigit d = ''0123456789abcdef'' ! d"

fun hex_of :: "nat \<Rightarrow> nat \<Rightarrow> string" where
  "hex_of 0 n = []"
| "hex_of (Suc k) n = hex_of k (n div 16) @ [hexdigit (n mod 16)]"

definition str_oid :: "objectid \<Rightarrow> string" where
  "str_oid oid = hex_of 24 (unat oid)"

definition hexval :: "char \<Rightarrow> nat option" where
  "hexval c =
     map_of
       [(CHR ''0'', 0), (CHR ''1'', 1), (CHR ''2'', 2), (CHR ''3'', 3), (CHR ''4'', 4),
        (CHR ''5'', 5), (CHR ''6'', 6), (CHR ''7'', 7), (CHR ''8'', 8), (CHR ''9'', 9),
        (CHR ''a'', 10), (CHR ''b'', 11), (CHR ''c'', 12), (CHR ''d'', 13), (CHR ''e'', 14),
        (CHR ''f'', 15), (CHR ''A'', 10), (CHR ''B'', 11), (CHR ''C'', 12), (CHR ''D'', 13),
        (CHR ''E'', 14), (CHR ''F'', 15)] c"

definition is_valid_hex :: "string \<Rightarrow> bool" where
  "is_valid_hex s = (length s = 24 \<and> list_all (\<lambda>c. hexval c \<noteq> None) s)"

definition hex_value :: "string \<Rightarrow> nat" where
  "hex_value s = foldl (\<lambda>a c. 16 * a + (case hexval c of Some d \<Rightarrow> d | None \<Rightarrow> 0)) 0 s"

text \<open>\<open>ObjectId.is_valid(oid)\<close> and \<open>ObjectId(oid)\<close> on a dynamically typed argument.\<close>

definition is_valid :: "val \<Rightarrow> bool" where
  "is_valid v = (case v of VOid _ \<Rightarrow> True | VStr s \<Rightarrow> is_valid_hex s | _ \<Rightarrow> False)"

definition ObjectId :: "val \<Rightarrow> error + objectid" where
  "ObjectId v =
     (case v of
        VOid oid \<Rightarrow> Inr oid
      | VStr s \<Rightarrow> if is_valid_hex s then Inr (word_of_nat (hex_value s)) else Inl InvalidId
      | _ \<Rightarrow> Inl TypeError)"

section \<open>Helpers\<close>

definition serialize_id :: "val \<Rightarrow> val" where
  "serialize_id v = (case v of VOid oid \<Rightarrow> VStr (str_oid oid) | _ \<Rightarrow> v)"

text \<open>The loop body of \<open>serialize_doc\<close>: one \<open>(k, v)\<close> item into \<open>out\<close>.\<close>

definition serialize_item :: "doc \<Rightarrow> string \<times> val \<Rightarrow> doc" where
  "serialize_item out kv =
     (if fst kv = ''_id'' then AList.update ''id'' (serialize_id (snd kv)) out
      else AList.update (fst kv) (serialize_id (snd kv)) out)"

text \<open>
  \<open>serialize_doc\<close>: \<open>None\<close> is Python's \<open>None\<close>; a falsy document (\<open>None\<close> or the
  empty dict) is returned as it is.
\<close>

definition serialize_doc :: "doc option \<Rightarrow> doc option" where
  "serialize_doc doc =
     (case doc of
        None \<Rightarrow> None
      | Some d \<Rightarrow> if d = [] then Some d else Some (foldl serialize_item [] d))"

section \<open>The document store\<close>

text \<open>
  The store behind the global \<open>db\<close>: its collections by name (each in the store's
  return order, which is insertion order here), the ObjectId the driver assigns to the
  next inserted document, and the clock that stamps it. \<open>db\<close> itself is a
  \<open>store option\<close>: \<open>None\<close> when no connection was configured. A handler that
  writes returns the store it leaves behind; an error result does not report the store.
\<close>

record store =
  colls :: "string \<Rightarrow> doc list"
  next_oid :: objectid
  clock :: int

definition and_then :: "error + 'a \<Rightarrow> ('a \<Rightarrow> error + 'b) \<Rightarrow> error + 'b" where
  "and_then m f = (case m of Inl e \<Rightarrow> Inl e | Inr x \<Rightarrow> f x)"

text \<open>
  The driver's collection operations, as far as the handlers use them. A filter is a
  dict of field/value pairs, and a document matches when each field holds that value;
  \<open>find_one\<close> is the first match or \<open>None\<close>. \<open>sort(field, 1)\<close> orders a cursor by a
  datetime field, ascending, documents without one first. \<open>limit(n)\<close> keeps \<open>|n|\<close>
  documents, \<open>limit(0)\<close> is the driver's "no limit", and a limit that does not fit a
  signed 64-bit integer cannot be sent to the store. The handlers write strings under
  the fields they filter on and a datetime under \<open>created_at\<close>; on such stores these
  definitions are the store's equality match and sort order.
\<close>

definition matches :: "doc \<Rightarrow> doc \<Rightarrow> bool" where
  "matches q d = list_all (\<lambda>kv. map_of d (fst kv) = Some (snd kv)) q"

definition cursor_find :: "doc list \<Rightarrow> doc \<Rightarrow> doc list" where
  "cursor_find c q = filter (matches q) c"

definition find_one :: "doc list \<Rightarrow> doc \<Rightarrow> doc option" where
  "find_one c q = (case cursor_find c q of [] \<Rightarrow> None | d # _ \<Rightarrow> Some d)"

definition count_documents :: "doc list \<Rightarrow> doc \<Rightarrow> nat" where
  "count_documents c q = length (cursor_find c q)"

definition time_of :: "string \<Rightarrow> doc \<Rightarrow> int option" where
  "time_of field d = (case map_of d field of Some (VTime t) \<Rightarrow> Some t | _ \<Rightarrow> None)"

definition cursor_sort :: "string \<Rightarrow> doc list \<Rightarrow> doc list" where
  "cursor_sort field c = sort_key (time_of field) c"

definition cursor_limit :: "int \<Rightarrow> doc list \<Rightarrow> error + doc list" where
  "cursor_limit n c =
     (if 2 ^ 63 \<le> \<bar>n\<bar> then Inl OverflowError
      else if n = 0 then Inr c
      else Inr (take (nat \<bar>n\<bar>) c))"

text \<open>\<open>db[name]\<close>: subscripting \<open>None\<close> raises \<open>TypeError\<close>.\<close>

definition db_collection :: "store option \<Rightarrow> string \<Rightarrow> error + doc list" where
  "db_collection db name = (case db of None \<Rightarrow> Inl TypeError | Some st \<Rightarrow> Inr (colls st name))"

text \<open>
  Modelled from the spec: the adapter module \<open>database\<close> (\<open>db\<close>, \<open>create_document\<close>,
  \<open>get_documents\<close>) is not among the sources. \<open>create_document\<close> inserts \<open>data\<close> as
  a new document of the named collection, with the newly assigned identifier under
  \<open>_id\<close> and the creation timestamp under \<open>created_at\<close>, and returns the identifier
  as a string; it fails with \<open>StoreUnavailable\<close> when no connection is established and
  with \<open>WriteError\<close> when the write fails (the store refuses a second document with
  the same \<open>_id\<close>). \<open>get_documents\<close> returns the documents of the collection that
  match an exact-match filter, all of them for the empty filter.
\<close>

definition stored_doc :: "objectid \<Rightarrow> int \<Rightarrow> doc \<Rightarrow> doc" where
  "stored_doc oid t data =
     AList.update ''_id'' (VOid oid) (AList.update ''created_at'' (VTime t) data)"

definition insert_doc :: "string \<Rightarrow> doc \<Rightarrow> store \<Rightarrow> store" where
  "insert_doc collection_name d st =
     st\<lparr>colls := (colls st)(collection_name := colls st collection_name @ [d]),
        next_oid := next_oid st + 1,
        clock := clock st + 1\<rparr>"

definition create_document :: "string \<Rightarrow> doc \<Rightarrow> store option \<Rightarrow> error + (string \<times> store)" where
  "create_document collection_name data db =
     (case db of
        None \<Rightarrow> Inl StoreUnavailable
      | Some st \<Rightarrow>
          if cursor_find (colls st collection_name) [(''_id'', VOid (next_oid st))] \<noteq> []
          then Inl WriteError
          else Inr (str_oid (next_oid st),
                 insert_doc collection_name (stored_doc (next_oid st) (clock st) data) st))"

definition get_documents :: "string \<Rightarrow> doc \<Rightarrow> store option \<Rightarrow> error + doc list" where
  "get_documents collection_name filter_dict db =
     (case db of
        None \<Rightarrow> Inl StoreUnavailable
      | Some st \<Rightarrow> Inr (cursor_find (colls st collection_name) filter_dict))"

section \<open>Pydantic models\<close>

text \<open>
  The request models with \<open>model_dump\<close>. A handler receives the model the framework
  validated from the JSON body. For \<open>ServerIn\<close> and \<open>MessageIn\<close>, whose fields are
  strings and lists of strings, that validation is modelled too: a required field must
  be there with its type, an optional one may be missing or null, a missing field takes
  its default, and a key the model does not declare is ignored. \<open>ChannelIn\<close> is taken
  as validated: its statements are about every \<open>ChannelIn\<close> the handler can receive.
\<close>

record ServerIn =
  sv_name :: string
  sv_icon_url :: "string option"
  sv_description :: "string option"
  sv_owner_id :: "string option"

record ChannelIn =
  ch_name :: string
  ch_type :: string
  ch_topic :: "string option"
  ch_is_private :: bool

record MessageIn =
  msg_author_id :: string
  msg_author_name :: string
  msg_content :: string
  msg_attachments :: "string list"

definition opt_str :: "string option \<Rightarrow> val" where
  "opt_str x = (case x of None \<Rightarrow> VNull | Some s \<Rightarrow> VStr s)"

definition ServerIn_dump :: "ServerIn \<Rightarrow> doc" where
  "ServerIn_dump p =
     [(''name'', VStr (sv_name p)), (''icon_url'', opt_str (sv_icon_url p)),
      (''description'', opt_str (sv_description p)), (''owner_id'', opt_str (sv_owner_id p))]"

definition ChannelIn_dump :: "ChannelIn \<Rightarrow> doc" where
  "ChannelIn_dump p =
     [(''name'', VStr (ch_name p)), (''type'', VStr (ch_type p)),
      (''topic'', opt_str (ch_topic p)), (''is_private'', VBool (ch_is_private p))]"

definition MessageIn_dump :: "MessageIn \<Rightarrow> doc" where
  "MessageIn_dump p =
     [(''author_id'', VStr (msg_author_id p)), (''author_name'', VStr (msg_author_name p)),
      (''content'', VStr (msg_content p)), (''attachments'', VList (map VStr (msg_attachments p)))]"

definition field_str :: "doc \<Rightarrow> string \<Rightarrow> error + string" where
  "field_str body k = (case map_of body k of Some (VStr s) \<Rightarrow> Inr s | _ \<Rightarrow> Inl ValidationError)"

definition field_opt_str :: "doc \<Rightarrow> string \<Rightarrow> error + string option" where
  "field_opt_str body k =
     (case map_of body k of
        None \<Rightarrow> Inr None
      | Some VNull \<Rightarrow> Inr None
      | Some (VStr s) \<Rightarrow> Inr (Some s)
      | _ \<Rightarrow> Inl ValidationError)"

fun str_items :: "val list \<Rightarrow> error + string list" where
  "str_items [] = Inr []"
| "str_items (VStr s # vs) = and_then (str_items vs) (\<lambda>ss. Inr (s # ss))"
| "str_items (_ # vs) = Inl ValidationError"

definition field_str_list :: "doc \<Rightarrow> string \<Rightarrow> error + string list" where
  "field_str_list body k =
     (case map_of body k of
        None \<Rightarrow> Inr []
      | Some (VList vs) \<Rightarrow> str_items vs
      | _ \<Rightarrow> Inl ValidationError)"

definition ServerIn_validate :: "doc \<Rightarrow> error + ServerIn" where
  "ServerIn_validate body =
     and_then (field_str body ''name'') (\<lambda>n.
     and_then (field_opt_str body ''icon_url'') (\<lambda>i.
     and_then (field_opt_str body ''description'') (\<lambda>d.
     and_then (field_opt_str body ''owner_id'') (\<lambda>ow.
     Inr \<lparr>sv_name = n, sv_icon_url = i, sv_description = d, sv_owner_id = ow\<rparr>))))"

definition MessageIn_validate :: "doc \<Rightarrow> error + MessageIn" where
  "MessageIn_validate body =
     and_then (field_str body ''author_id'') (\<lambda>a.
     and_then (field_str body ''author_name'') (\<lambda>an.
     and_then (field_str body ''content'') (\<lambda>c.
     and_then (field_str_list body ''attachments'') (\<lambda>at.
     Inr \<lparr>msg_author_id = a, msg_author_name = an, msg_content = c, msg_attachments = at\<rparr>))))"

section \<open>Servers, channels, messages\<close>

text \<open>
  The handlers take the path parameters as values (the seed routine calls them with
  whatever \<open>server["id"]\<close> holds; a request passes a \<open>VStr\<close>), the validated model,
  and \<open>db\<close>.
\<close>

definition serialize_all :: "doc list \<Rightarrow> doc option list" where
  "serialize_all ds = map (\<lambda>d. serialize_doc (Some d)) ds"

definition list_servers :: "store option \<Rightarrow> error + doc option list" where
  "list_servers db =
     and_then (get_documents ''server'' [] db) (\<lambda>servers. Inr (serialize_all servers))"

definition read_back :: "string \<Rightarrow> string \<times> store \<Rightarrow> error + (doc option \<times> store)" where
  "read_back collection_name r =
     and_then (ObjectId (VStr (fst r))) (\<lambda>oid.
     Inr (serialize_doc (find_one (colls (snd r) collection_name) [(''_id'', VOid oid)]), snd r))"

definition create_server :: "ServerIn \<Rightarrow> store option \<Rightarrow> error + (doc option \<times> store)" where
  "create_server payload db =
     and_then (create_document ''server'' (ServerIn_dump payload) db) (read_back ''server'')"

definition list_channels :: "val \<Rightarrow> store option \<Rightarrow> error + doc option list" where
  "list_channels server_id db =
     and_then (get_documents ''channel'' [(''server_id'', server_id)] db)
       (\<lambda>channels. Inr (serialize_all channels))"

definition create_channel :: "val \<Rightarrow> ChannelIn \<Rightarrow> store option \<Rightarrow> error + (doc option \<times> store)" where
  "create_channel server_id payload db =
     (let data = AList.update ''server_id'' server_id (ChannelIn_dump payload)
      in and_then (create_document ''channel'' data db) (read_back ''channel''))"

text \<open>\<open>limit\<close> is \<open>None\<close> when the query parameter is omitted: the default is 50.\<close>

definition list_messages :: "val \<Rightarrow> int option \<Rightarrow> store option \<Rightarrow> error + doc option list" where
  "list_messages channel_id limit db =
     and_then (db_collection db ''message'') (\<lambda>message.
     and_then
       (cursor_limit (case limit of None \<Rightarrow> 50 | Some n \<Rightarrow> n)
          (cursor_sort ''created_at'' (cursor_find message [(''channel_id'', channel_id)])))
       (\<lambda>cursor. Inr (serialize_all cursor)))"

definition send_message :: "val \<Rightarrow> MessageIn \<Rightarrow> store option \<Rightarrow> error + (doc option \<times> store)" where
  "send_message channel_id payload db =
     and_then (db_collection db ''channel'') (\<lambda>channel_coll.
     and_then
       (if is_valid channel_id
        then and_then (ObjectId channel_id) (\<lambda>oid. Inr (find_one channel_coll [(''_id'', VOid oid)]))
        else Inr (find_one channel_coll [(''id'', channel_id)]))
       (\<lambda>channel.
     let data = AList.update ''channel_id'' channel_id (MessageIn_dump payload)
     in and_then (create_document ''message'' data db) (read_back ''message'')))"

text \<open>The routes whose body validation is modelled: the framework validates the body,
  then calls the handler.\<close>

definition post_server :: "doc \<Rightarrow> store option \<Rightarrow> error + (doc option \<times> store)" where
  "post_server body db = and_then (ServerIn_validate body) (\<lambda>payload. create_server payload db)"

definition post_message :: "string \<Rightarrow> doc \<Rightarrow> store option \<Rightarrow> error + (doc option \<times> store)" where
  "post_message channel_id body db =
     and_then (MessageIn_validate body) (\<lambda>payload. send_message (VStr channel_id) payload db)"

section \<open>Seed demo content\<close>

definition truthy :: "doc option \<Rightarrow> bool" where
  "truthy doc = (case doc of None \<Rightarrow> False | Some d \<Rightarrow> d \<noteq> [])"

text \<open>\<open>doc[k]\<close>: \<open>TypeError\<close> on \<open>None\<close>, \<open>KeyError\<close> on a missing key.\<close>

definition getitem :: "doc option \<Rightarrow> string \<Rightarrow> error + val" where
  "getitem doc k =
     (case doc of
        None \<Rightarrow> Inl TypeError
      | Some d \<Rightarrow> (case map_of d k of None \<Rightarrow> Inl KeyError | Some v \<Rightarrow> Inr v))"

definition seed_server :: ServerIn where
  "seed_server =
     \<lparr>sv_name = ''VibeCord'', sv_icon_url = None,
      sv_description = Some ''A modern, minimal community'', sv_owner_id = None\<rparr>"

definition channel_names :: "string list" where
  "channel_names = [''general'', ''announcements'', ''design'', ''dev-talk'']"

definition seed_channel :: "string \<Rightarrow> ChannelIn" where
  "seed_channel name =
     \<lparr>ch_name = name, ch_type = ''text'', ch_topic = Some (''Welcome to #'' @ name),
      ch_is_private = False\<rparr>"

definition seed_message :: "string \<Rightarrow> MessageIn" where
  "seed_message text =
     \<lparr>msg_author_id = ''seed'', msg_author_name = ''System'', msg_content = text,
      msg_attachments = []\<rparr>"

fun seed_channels :: "val \<Rightarrow> string list \<Rightarrow> store \<Rightarrow> error + store" where
  "seed_channels server_id [] st = Inr st"
| "seed_channels server_id (name # names) st =
     and_then (create_channel server_id (seed_channel name) (Some st))
       (\<lambda>r. seed_channels server_id names (snd r))"

fun seed_messages :: "val \<Rightarrow> string list \<Rightarrow> store \<Rightarrow> error + store" where
  "seed_messages channel_id [] st = Inr st"
| "seed_messages channel_id (text # texts) st =
     and_then (send_message channel_id (seed_message text) (Some st))
       (\<lambda>r. seed_messages channel_id texts (snd r))"

text \<open>The em dash of the first welcome text is written as its UTF-8 bytes.\<close>

definition welcome_texts :: "string list" where
  "welcome_texts =
     [''Welcome to VibeCord '' @ [CHR 0xE2, CHR 0x80, CHR 0x94] @ '' a clean, modern chat.'',
      ''Use the message box below to send your first message.'',
      ''We'' @ [CHR 0x27] @ ''ll keep things fast and minimal.'']"

text \<open>The three steps of the routine: the server, its channels, the welcome messages.\<close>

definition ensure_server :: "store \<Rightarrow> error + (doc option \<times> store)" where
  "ensure_server st =
     (let existing = find_one (colls st ''server'') []
      in if truthy existing then Inr (serialize_doc existing, st)
         else create_server seed_server (Some st))"

definition ensure_channels :: "val \<Rightarrow> store \<Rightarrow> error + store" where
  "ensure_channels server_id st =
     (if count_documents (colls st ''channel'') [(''server_id'', server_id)] = 0
      then seed_channels server_id channel_names st
      else Inr st)"

definition ensure_messages :: "doc option list \<Rightarrow> store \<Rightarrow> error + store" where
  "ensure_messages channels st =
     (case channels of
        [] \<Rightarrow> Inr st
      | first_channel # _ \<Rightarrow>
          and_then (getitem first_channel ''id'') (\<lambda>first_id.
          if count_documents (colls st ''message'') [(''channel_id'', first_id)] = 0
          then seed_messages first_id welcome_texts st
          else Inr st))"

definition seed_demo :: "store option \<Rightarrow> error + ((doc option \<times> doc option list) \<times> store)" where
  "seed_demo db =
     (case db of
        None \<Rightarrow> Inl TypeError
      | Some st \<Rightarrow>
          and_then (ensure_server st) (\<lambda>(server, st1).
          and_then (getitem server ''id'') (\<lambda>server_id.
          and_then (ensure_channels server_id st1) (\<lambda>st2.
          and_then (list_channels server_id (Some st2)) (\<lambda>channels.
          and_then (ensure_messages channels st2) (\<lambda>st3.
          Inr ((server, channels), st3)))))))"

section \<open>The connectivity diagnostic\<close>

text \<open>
  \<open>test_database\<close> truncates an error text to 50 characters, so its strings are lists of
  code points. What it reads of the environment is a parameter: the two environment
  variables, and the handle \<open>db\<close> with the outcome of each operation on it. An outcome
  is a value, or an exception (an instance of \<open>Exception\<close>) given by whether it is an
  \<open>AttributeError\<close> and by its text \<open>str(e)\<close>. The handler reads \<open>db.name\<close> twice:
  inside \<open>hasattr(db, 'name')\<close>, which answers \<open>False\<close> on an \<open>AttributeError\<close> and lets
  any other exception through, and again when \<open>hasattr\<close> answered \<open>True\<close>.
\<close>

type_synonym ustr = "nat list"

definition ascii :: "string \<Rightarrow> ustr" where
  "ascii s = map of_char s"

definition check_mark :: ustr where
  "check_mark = [0x2705]"

definition cross_mark :: ustr where
  "cross_mark = [0x274C]"

definition warning_sign :: ustr where
  "warning_sign = [0x26A0, 0xFE0F]"

datatype exc = Exc (is_attribute_error: bool) (exc_text: ustr)

datatype 'a outcome = Returns 'a | Raises exc

record db_handle =
  hasattr_name :: "ustr outcome"
  name_read :: "ustr outcome"
  list_collection_names :: "ustr list outcome"

record response =
  backend :: ustr
  database :: ustr
  database_url :: "ustr option"
  database_name :: "ustr option"
  connection_status :: ustr
  collections :: "ustr list"

definition getenv_set :: "ustr option \<Rightarrow> ustr" where
  "getenv_set v =
     (if v \<noteq> None \<and> v \<noteq> Some [] then check_mark @ ascii '' Set''
      else cross_mark @ ascii '' Not Set'')"

text \<open>\<open>db.name if hasattr(db, 'name') else "... Connected"\<close>.\<close>

definition name_or_default :: "db_handle \<Rightarrow> ustr outcome" where
  "name_or_default h =
     (case hasattr_name h of
        Returns _ \<Rightarrow> name_read h
      | Raises x \<Rightarrow>
          if is_attribute_error x then Returns (check_mark @ ascii '' Connected'')
          else Raises x)"

definition test_database :: "db_handle option \<Rightarrow> ustr option \<Rightarrow> ustr option \<Rightarrow> response" where
  "test_database db env_url env_name =
     (let response =
            \<lparr>backend = check_mark @ ascii '' Running'',
             database = cross_mark @ ascii '' Not Available'',
             database_url = None,
             database_name = None,
             connection_status = ascii ''Not Connected'',
             collections = []\<rparr>;
          response =
            (case db of
               None \<Rightarrow>
                 response\<lparr>database := warning_sign @ ascii ''  Available but not initialized''\<rparr>
             | Some h \<Rightarrow>
                 (let response =
                        response\<lparr>database := check_mark @ ascii '' Available'',
                                 database_url := Some (check_mark @ ascii '' Configured'')\<rparr>
                  in case name_or_default h of
                       Raises x \<Rightarrow>
                         response\<lparr>database :=
                                    cross_mark @ ascii '' Error: '' @ take 50 (exc_text x)\<rparr>
                     | Returns name \<Rightarrow>
                         (let response =
                                response\<lparr>database_name := Some name,
                                         connection_status := ascii ''Connected''\<rparr>
                          in case list_collection_names h of
                               Returns cs \<Rightarrow>
                                 response\<lparr>collections := take 10 cs,
                                          database := check_mark @ ascii '' Connected & Working''\<rparr>
                             | Raises x \<Rightarrow>
                                 response\<lparr>database :=
                                            warning_sign @ ascii ''  Connected but Error: ''
                                              @ take 50 (exc_text x)\<rparr>)))
      in response\<lparr>database_url := Some (getenv_set env_url),
                  database_name := Some (getenv_set env_name)\<rparr>)"

section \<open>Predicates of the statements\<close>

definition is_oid :: "val \<Rightarrow> bool" where
  "is_oid v = (case v of VOid _ \<Rightarrow> True | _ \<Rightarrow> False)"

text \<open>A document as it leaves \<open>serialize_doc\<close>: a dict with no \<open>_id\<close> key and no
  top-level ObjectId value.\<close>

definition serialized :: "doc \<Rightarrow> bool" where
  "serialized d =
     (distinct (map fst d) \<and> ''_id'' \<notin> fst ` set d \<and> list_all (\<lambda>kv. \<not> is_oid (snd kv)) d)"

text \<open>A field of a response document (\<open>None\<close> for a null response or a missing key),
  and its creation time.\<close>

definition resp_field :: "doc option \<Rightarrow> string \<Rightarrow> val option" where
  "resp_field r k = (case r of None \<Rightarrow> None | Some d \<Rightarrow> map_of d k)"

definition resp_time :: "doc option \<Rightarrow> int option" where
  "resp_time r = (case r of None \<Rightarrow> None | Some d \<Rightarrow> time_of ''created_at'' d)"

text \<open>The store with no document, whatever the next identifier and the time.\<close>

definition empty_store :: "objectid \<Rightarrow> int \<Rightarrow> store" where
  "empty_store n t = \<lparr>colls = (\<lambda>_. []), next_oid = n, clock = t\<rparr>"

text \<open>
  A document as the store holds it: a dict whose \<open>_id\<close> is an ObjectId, with no key
  \<open>id\<close>. Every store the handlers build from an empty one holds only such documents.
\<close>

definition wf_doc :: "doc \<Rightarrow> bool" where
  "wf_doc d =
     (distinct (map fst d)
      \<and> (case map_of d ''_id'' of Some (VOid _) \<Rightarrow> True | _ \<Rightarrow> False)
      \<and> map_of d ''id'' = None)"

definition wf_store :: "store \<Rightarrow> bool" where
  "wf_store st = (\<forall>c. list_all wf_doc (colls st c))"

inductive reachable :: "store \<Rightarrow> bool" where
  init: "reachable (empty_store n t)"
| server: "reachable st \<Longrightarrow> create_server p (Some st) = Inr (r, st') \<Longrightarrow> reachable st'"
| channel:
    "reachable st \<Longrightarrow> create_channel (VStr sid) c (Some st) = Inr (r, st') \<Longrightarrow> reachable st'"
| message:
    "reachable st \<Longrightarrow> send_message (VStr cid) m (Some st) = Inr (r, st') \<Longrightarrow> reachable st'"
| seed: "reachable st \<Longrightarrow> seed_demo (Some st) = Inr (rs, st') \<Longrightarrow> reachable st'"

text \<open>
  A response \<open>r\<close> exposes the stored document \<open>d\<close>: \<open>d\<close> has an ObjectId under \<open>_id\<close>,
  \<open>r\<close> holds its string under \<open>id\<close>, and \<open>r\<close> has no key \<open>_id\<close>. A response is exposed
  from a collection when it exposes one of its documents.
\<close>

definition exposes :: "doc \<Rightarrow> doc option \<Rightarrow> bool" where
  "exposes d r =
     (case map_of d ''_id'' of
        Some (VOid oid) \<Rightarrow>
          resp_field r ''id'' = Some (VStr (str_oid oid)) \<and> resp_field r ''_id'' = None
      | _ \<Rightarrow> False)"

definition exposed_from :: "doc list \<Rightarrow> doc option \<Rightarrow> bool" where
  "exposed_from c r = list_ex (\<lambda>d. exposes d r) c"

text \<open>A store grows into another when every collection only gains documents at its end.\<close>

definition grows :: "store \<Rightarrow> store \<Rightarrow> bool" where
  "grows st st' = (\<forall>c. \<exists>new. colls st' c = colls st c @ new)"

text \<open>What the seed routine writes: a Channel with the \<open>ChannelIn\<close> defaults, and a
  welcome Message of a channel.\<close>

definition default_channel :: "doc \<Rightarrow> bool" where
  "default_channel d =
     (map_of d ''type'' = Some (VStr ''text'') \<and> map_of d ''is_private'' = Some (VBool False))"

definition welcome_message :: "val \<Rightarrow> doc \<Rightarrow> bool" where
  "welcome_message channel_id d =
     (map_of d ''author_id'' = Some (VStr ''seed'')
      \<and> map_of d ''author_name'' = Some (VStr ''System'')
      \<and> map_of d ''attachments'' = Some (VList [])
      \<and> map_of d ''channel_id'' = Some channel_id)"

section \<open>Properties of the serialization helper\<close>

lemma serialize_id_not_oid: "\<not> is_oid (serialize_id v)"
  by (cases v) (simp_all add: serialize_id_def is_oid_def)

lemma serialize_id_id: "\<not> is_oid v \<Longrightarrow> serialize_id v = v"
  by (cases v) (simp_all add: serialize_id_def is_oid_def)

lemma list_all_update:
  "list_all (\<lambda>kv. \<not> is_oid (snd kv)) al \<Longrightarrow> \<not> is_oid v \<Longrightarrow>
   list_all (\<lambda>kv. \<not> is_oid (snd kv)) (AList.update k v al)"
  by (induction al) auto

lemma serialized_item: "serialized out \<Longrightarrow> serialized (serialize_item out kv)"
  unfolding serialized_def serialize_item_def
  by (auto simp: distinct_update dom_update list_all_update serialize_id_not_oid)

lemma serialized_foldl: "serialized out \<Longrightarrow> serialized (foldl serialize_item out d)"
  by (induction d arbitrary: out) (simp_all add: serialized_item)

lemma update_fresh: "k \<notin> fst ` set al \<Longrightarrow> AList.update k v al = al @ [(k, v)]"
  by (induction al) auto

lemma foldl_serialized_append:
  "serialized (out @ d) \<Longrightarrow> foldl serialize_item out d = out @ d"
proof (induction d arbitrary: out)
  case Nil
  then show ?case by simp
next
  case (Cons kv d)
  obtain k v where kv: "kv = (k, v)" by (cases kv)
  from Cons.prems have k: "k \<noteq> ''_id''" "k \<notin> fst ` set out" "\<not> is_oid v"
    by (auto simp: serialized_def kv)
  then have step: "serialize_item out kv = out @ [kv]"
    by (simp add: serialize_item_def kv serialize_id_id update_fresh)
  from Cons.prems have "serialized ((out @ [kv]) @ d)" by simp
  then have "foldl serialize_item (out @ [kv]) d = (out @ [kv]) @ d"
    by (rule Cons.IH)
  with step show ?case by simp
qed

lemma serialized_Nil: "serialized []"
  by (simp add: serialized_def)

lemma serialize_doc_serialized: "serialize_doc (Some d) = Some d' \<Longrightarrow> serialized d'"
  using serialized_foldl [OF serialized_Nil, of d]
  by (auto simp: serialize_doc_def serialized_Nil split: if_splits)

lemma serialize_doc_fixed: "serialized d \<Longrightarrow> serialize_doc (Some d) = Some d"
  using foldl_serialized_append [of "[]" d] by (simp add: serialize_doc_def)

text \<open>
  C6. Serializing twice is the same as serializing once, for every document and for
  \<open>None\<close>; \<open>None\<close> passes through unchanged; and on an already-serialized document
  (a dict without an \<open>_id\<close> key whose top-level values are not ObjectIds)
  \<open>serialize_doc\<close> is a no-op.
\<close>

theorem serialize_doc_idempotent:
  "serialize_doc (serialize_doc doc) = serialize_doc doc
   \<and> serialize_doc None = None
   \<and> (serialized d \<longrightarrow> serialize_doc (Some d) = Some d)"
proof (intro conjI impI)
  show "serialize_doc (serialize_doc doc) = serialize_doc doc"
  proof (cases doc)
    case None
    then show ?thesis by (simp add: serialize_doc_def)
  next
    case (Some d0)
    obtain d' where d': "serialize_doc (Some d0) = Some d'"
      by (cases "d0 = []") (simp_all add: serialize_doc_def)
    then have "serialized d'" by (rule serialize_doc_serialized)
    then have "serialize_doc (Some d') = Some d'" by (rule serialize_doc_fixed)
    with d' Some show ?thesis by simp
  qed
  show "serialize_doc None = None" by (simp add: serialize_doc_def)
  show "serialize_doc (Some d) = Some d" if "serialized d"
    using that by (rule serialize_doc_fixed)
qed

theorem serialize_doc_idempotent_witness:
  "serialize_doc (serialize_doc (Some [(''_id'', VOid 7), (''name'', VStr ''Test'')]))
     = serialize_doc (Some [(''_id'', VOid 7), (''name'', VStr ''Test'')])
   \<and> serialize_doc None = None
   \<and> serialized [(''id'', VStr ''abc''), (''name'', VStr ''Test'')]
   \<and> serialize_doc (Some [(''id'', VStr ''abc''), (''name'', VStr ''Test'')])
     = Some [(''id'', VStr ''abc''), (''name'', VStr ''Test'')]"
  using serialize_doc_idempotent
    [of "Some [(''_id'', VOid 7), (''name'', VStr ''Test'')]"
        "[(''id'', VStr ''abc''), (''name'', VStr ''Test'')]"]
  by (simp add: serialized_def is_oid_def)

section \<open>Identifiers as strings\<close>

lemma hexval_hexdigit: "d < 16 \<Longrightarrow> hexval (hexdigit d) = Some d"
proof -
  assume "d < 16"
  then consider "d = 0" | "d = 1" | "d = 2" | "d = 3" | "d = 4" | "d = 5" | "d = 6" | "d = 7"
    | "d = 8" | "d = 9" | "d = 10" | "d = 11" | "d = 12" | "d = 13" | "d = 14" | "d = 15"
    by atomize_elim arith
  then show ?thesis
    by cases (simp_all add: hexval_def hexdigit_def)
qed

lemma length_hex_of: "length (hex_of k n) = k"
  by (induction k arbitrary: n) simp_all

lemma hex_of_valid: "list_all (\<lambda>c. hexval c \<noteq> None) (hex_of k n)"
  by (induction k arbitrary: n) (simp_all add: hexval_hexdigit)

lemma hex_value_hex_of: "hex_value (hex_of k n) = n mod 16 ^ k"
proof (induction k arbitrary: n)
  case 0
  show ?case by (simp add: hex_value_def)
next
  case (Suc k)
  have "hex_value (hex_of (Suc k) n) = 16 * hex_value (hex_of k (n div 16)) + n mod 16"
    by (simp add: hex_value_def hexval_hexdigit)
  also have "\<dots> = 16 * ((n div 16) mod 16 ^ k) + n mod 16"
    by (simp add: Suc.IH)
  also have "\<dots> = n mod 16 ^ Suc k"
    by (simp add: mod_mult2_eq)
  finally show ?case .
qed

lemma is_valid_str_oid: "is_valid_hex (str_oid oid)"
  unfolding is_valid_hex_def str_oid_def
  using length_hex_of [of 24 "unat oid"] hex_of_valid [of 24 "unat oid"] by blast

lemma ObjectId_str_oid: "ObjectId (VStr (str_oid oid)) = Inr oid"
proof -
  have "unat oid < 2 ^ 96" using unsigned_less [of oid] by simp
  then have "unat oid mod 16 ^ 24 = unat oid" by simp
  then have "hex_value (str_oid oid) = unat oid"
    by (simp add: str_oid_def hex_value_hex_of)
  then show ?thesis
    by (simp add: ObjectId_def is_valid_str_oid)
qed

lemma str_oid_nonempty: "str_oid oid \<noteq> []"
  using length_hex_of [of 24 "unat oid"] by (auto simp: str_oid_def simp del: hex_of.simps)

section \<open>Fields of a serialized document\<close>

lemma map_of_serialize_item:
  "map_of (serialize_item out kv) =
     (map_of out)((if fst kv = ''_id'' then ''id'' else fst kv) \<mapsto> serialize_id (snd kv))"
  by (simp add: serialize_item_def update_conv')

lemma foldl_serialize_other:
  "k \<noteq> ''id'' \<Longrightarrow> k \<notin> fst ` set d \<Longrightarrow> map_of (foldl serialize_item out d) k = map_of out k"
  by (induction d arbitrary: out) (auto simp: map_of_serialize_item)

lemma foldl_serialize_no_id:
  "''id'' \<notin> fst ` set d \<Longrightarrow> ''_id'' \<notin> fst ` set d \<Longrightarrow>
   map_of (foldl serialize_item out d) ''id'' = map_of out ''id''"
  by (induction d arbitrary: out) (auto simp: map_of_serialize_item)

lemma foldl_serialize_field:
  "k \<noteq> ''id'' \<Longrightarrow> k \<noteq> ''_id'' \<Longrightarrow> distinct (map fst d) \<Longrightarrow> map_of d k = Some v \<Longrightarrow>
   map_of (foldl serialize_item out d) k = Some (serialize_id v)"
proof (induction d arbitrary: out)
  case Nil
  then show ?case by simp
next
  case (Cons kv d)
  show ?case
  proof (cases "fst kv = k")
    case True
    with Cons.prems have "k \<notin> fst ` set d" "snd kv = v" by auto
    with Cons.prems True show ?thesis
      by (simp add: foldl_serialize_other map_of_serialize_item)
  next
    case False
    with Cons.prems have "map_of d k = Some v" "distinct (map fst d)"
      by (auto split: if_splits)
    with Cons.prems show ?thesis by (simp add: Cons.IH)
  qed
qed

lemma foldl_serialize_id:
  "''id'' \<notin> fst ` set d \<Longrightarrow> distinct (map fst d) \<Longrightarrow> map_of d ''_id'' = Some v \<Longrightarrow>
   map_of (foldl serialize_item out d) ''id'' = Some (serialize_id v)"
proof (induction d arbitrary: out)
  case Nil
  then show ?case by simp
next
  case (Cons kv d)
  show ?case
  proof (cases "fst kv = ''_id''")
    case True
    with Cons.prems have "''_id'' \<notin> fst ` set d" "''id'' \<notin> fst ` set d" "snd kv = v" by auto
    with True show ?thesis
      by (simp add: foldl_serialize_no_id map_of_serialize_item)
  next
    case False
    with Cons.prems have "map_of d ''_id'' = Some v" "distinct (map fst d)" "''id'' \<notin> fst ` set d"
      by (auto split: if_splits)
    then show ?thesis by (simp add: Cons.IH)
  qed
qed

lemma serialize_doc_Some: "\<exists>d'. serialize_doc (Some d) = Some d'"
  by (simp add: serialize_doc_def)

lemma resp_field_serialize:
  assumes "k \<noteq> ''id''" "k \<noteq> ''_id''" "distinct (map fst d)" "map_of d k = Some v"
  shows "resp_field (serialize_doc (Some d)) k = Some (serialize_id v)"
proof -
  from assms(4) have "d \<noteq> []" by auto
  then show ?thesis
    using foldl_serialize_field [OF assms, of "[]"]
    by (simp add: resp_field_def serialize_doc_def)
qed

lemma resp_field_serialize_id:
  assumes "''id'' \<notin> fst ` set d" "distinct (map fst d)" "map_of d ''_id'' = Some v"
  shows "resp_field (serialize_doc (Some d)) ''id'' = Some (serialize_id v)"
proof -
  from assms(3) have "d \<noteq> []" by auto
  then show ?thesis
    using foldl_serialize_id [OF assms, of "[]"]
    by (simp add: resp_field_def serialize_doc_def)
qed

text \<open>
  C9. \<open>serialize_doc\<close> converts an ObjectId exactly where it is the value of a top-level
  field: such a value becomes its string (under \<open>id\<close> when the field is \<open>_id\<close>, under
  its own key otherwise), while a list or a mapping is returned as it is, ObjectIds
  inside it included, so a field such as \<open>member_ids\<close>, \<open>attachments\<close> or \<open>reactions\<close>
  leaves \<open>serialize_doc\<close> unchanged, still holding the store-native identifiers.
\<close>

theorem serialize_doc_nested:
  "serialize_id (VOid oid) = VStr (str_oid oid)
   \<and> serialize_id (VList xs) = VList xs \<and> serialize_id (VDict m) = VDict m
   \<and> (distinct (map fst d) \<and> ''id'' \<notin> fst ` set d \<and> map_of d ''_id'' = Some (VOid oid)
      \<longrightarrow> resp_field (serialize_doc (Some d)) ''id'' = Some (VStr (str_oid oid)))
   \<and> (distinct (map fst d) \<and> k \<noteq> ''_id'' \<and> k \<noteq> ''id'' \<and> map_of d k = Some (VOid oid)
      \<longrightarrow> resp_field (serialize_doc (Some d)) k = Some (VStr (str_oid oid)))
   \<and> (distinct (map fst d) \<and> k \<noteq> ''_id'' \<and> k \<noteq> ''id''
        \<and> (map_of d k = Some (VList xs) \<or> map_of d k = Some (VDict m))
      \<longrightarrow> resp_field (serialize_doc (Some d)) k = map_of d k)"
  by (auto simp: resp_field_serialize resp_field_serialize_id serialize_id_def)

theorem serialize_doc_nested_witness:
  "serialize_id (VOid 1) = VStr (str_oid 1)
   \<and> serialize_id (VList [VOid 5]) = VList [VOid 5]
   \<and> serialize_id (VDict [(''u'', VOid 6)]) = VDict [(''u'', VOid 6)]
   \<and> distinct (map fst [(''_id'', VOid 1), (''member_ids'', VList [VOid 5])])
   \<and> resp_field (serialize_doc (Some [(''_id'', VOid 1), (''member_ids'', VList [VOid 5])]))
        ''id'' = Some (VStr (str_oid 1))
   \<and> resp_field (serialize_doc (Some [(''_id'', VOid 1), (''member_ids'', VList [VOid 5])]))
        ''member_ids'' = Some (VList [VOid 5])
   \<and> resp_field (serialize_doc (Some [(''owner'', VOid 1), (''reactions'', VDict [(''u'', VOid 6)])]))
        ''owner'' = Some (VStr (str_oid 1))
   \<and> resp_field (serialize_doc (Some [(''owner'', VOid 1), (''reactions'', VDict [(''u'', VOid 6)])]))
        ''reactions'' = Some (VDict [(''u'', VOid 6)])"
  using serialize_doc_nested
    [of 1 "[VOid 5]" "[(''u'', VOid 6)]" "[(''_id'', VOid 1), (''member_ids'', VList [VOid 5])]"
        "''member_ids''"]
    serialize_doc_nested
    [of 1 "[VOid 5]" "[(''u'', VOid 6)]"
        "[(''owner'', VOid 1), (''reactions'', VDict [(''u'', VOid 6)])]" "''owner''"]
    serialize_doc_nested
    [of 1 "[VOid 5]" "[(''u'', VOid 6)]"
        "[(''owner'', VOid 1), (''reactions'', VDict [(''u'', VOid 6)])]" "''reactions''"]
  by simp

section \<open>Writing a document and reading it back\<close>

lemma and_then_Inr [simp]: "and_then (Inr x) f = f x"
  by (simp add: and_then_def)

lemma and_then_Inl [simp]: "and_then (Inl e) f = Inl e"
  by (simp add: and_then_def)

lemma and_then_eq_Inr:
  "and_then m f = Inr y \<longleftrightarrow> (\<exists>x. m = Inr x \<and> f x = Inr y)"
  by (cases m) simp_all

lemma matches_id_stored: "matches [(''_id'', VOid oid)] (stored_doc oid t data)"
  by (simp add: matches_def stored_doc_def update_conv')

lemma find_one_appended:
  "cursor_find c q = [] \<Longrightarrow> matches q d \<Longrightarrow> find_one (c @ [d]) q = Some d"
  by (simp add: find_one_def cursor_find_def)

lemma colls_insert_doc:
  "colls (insert_doc c d st) c' = (if c' = c then colls st c @ [d] else colls st c')"
  by (simp add: insert_doc_def)

lemma create_document_eq_Inr:
  "create_document c data (Some st) = Inr r \<longleftrightarrow>
     cursor_find (colls st c) [(''_id'', VOid (next_oid st))] = []
     \<and> r = (str_oid (next_oid st), insert_doc c (stored_doc (next_oid st) (clock st) data) st)"
  by (auto simp: create_document_def)

lemma read_back_inserted:
  assumes "cursor_find (colls st c) [(''_id'', VOid (next_oid st))] = []"
  shows "read_back c (str_oid (next_oid st),
                      insert_doc c (stored_doc (next_oid st) (clock st) data) st)
         = Inr (serialize_doc (Some (stored_doc (next_oid st) (clock st) data)),
                insert_doc c (stored_doc (next_oid st) (clock st) data) st)"
  using assms
  by (simp add: read_back_def ObjectId_str_oid colls_insert_doc find_one_appended matches_id_stored)

lemma create_then_read_eq_Inr:
  "and_then (create_document c data (Some st)) (read_back c) = Inr r \<longleftrightarrow>
     cursor_find (colls st c) [(''_id'', VOid (next_oid st))] = []
     \<and> r = (serialize_doc (Some (stored_doc (next_oid st) (clock st) data)),
            insert_doc c (stored_doc (next_oid st) (clock st) data) st)"
  by (auto simp: and_then_eq_Inr create_document_eq_Inr read_back_inserted)

lemma serialize_server_doc:
  "serialize_doc (Some (stored_doc oid t (ServerIn_dump p))) =
     Some [(''name'', VStr (sv_name p)), (''icon_url'', opt_str (sv_icon_url p)),
           (''description'', opt_str (sv_description p)), (''owner_id'', opt_str (sv_owner_id p)),
           (''created_at'', VTime t), (''id'', VStr (str_oid oid))]"
  by (simp add: serialize_doc_def stored_doc_def ServerIn_dump_def serialize_item_def
      serialize_id_def opt_str_def split: option.splits)

lemma serialize_channel_doc:
  "serialize_doc (Some (stored_doc oid t (AList.update ''server_id'' sid (ChannelIn_dump p)))) =
     Some [(''name'', VStr (ch_name p)), (''type'', VStr (ch_type p)),
           (''topic'', opt_str (ch_topic p)), (''is_private'', VBool (ch_is_private p)),
           (''server_id'', serialize_id sid),
           (''created_at'', VTime t), (''id'', VStr (str_oid oid))]"
  by (simp add: serialize_doc_def stored_doc_def ChannelIn_dump_def serialize_item_def
      opt_str_def split: option.splits)
     (simp add: serialize_id_def)

lemma serialize_message_doc:
  "serialize_doc (Some (stored_doc oid t (AList.update ''channel_id'' cid (MessageIn_dump p)))) =
     Some [(''author_id'', VStr (msg_author_id p)), (''author_name'', VStr (msg_author_name p)),
           (''content'', VStr (msg_content p)),
           (''attachments'', VList (map VStr (msg_attachments p))),
           (''channel_id'', serialize_id cid),
           (''created_at'', VTime t), (''id'', VStr (str_oid oid))]"
  by (simp add: serialize_doc_def stored_doc_def MessageIn_dump_def serialize_item_def)
     (simp add: serialize_id_def)

section \<open>Creating servers, channels and messages\<close>

lemma create_server_eq_Inr:
  "create_server p (Some st) = Inr r \<longleftrightarrow>
     cursor_find (colls st ''server'') [(''_id'', VOid (next_oid st))] = []
     \<and> r = (Some [(''name'', VStr (sv_name p)), (''icon_url'', opt_str (sv_icon_url p)),
                  (''description'', opt_str (sv_description p)),
                  (''owner_id'', opt_str (sv_owner_id p)),
                  (''created_at'', VTime (clock st)), (''id'', VStr (str_oid (next_oid st)))],
            insert_doc ''server'' (stored_doc (next_oid st) (clock st) (ServerIn_dump p)) st)"
  unfolding create_server_def create_then_read_eq_Inr serialize_server_doc ..

lemma create_channel_eq_Inr:
  "create_channel sid p (Some st) = Inr r \<longleftrightarrow>
     cursor_find (colls st ''channel'') [(''_id'', VOid (next_oid st))] = []
     \<and> r = (Some [(''name'', VStr (ch_name p)), (''type'', VStr (ch_type p)),
                  (''topic'', opt_str (ch_topic p)), (''is_private'', VBool (ch_is_private p)),
                  (''server_id'', serialize_id sid),
                  (''created_at'', VTime (clock st)), (''id'', VStr (str_oid (next_oid st)))],
            insert_doc ''channel''
              (stored_doc (next_oid st) (clock st)
                 (AList.update ''server_id'' sid (ChannelIn_dump p))) st)"
  unfolding create_channel_def Let_def create_then_read_eq_Inr serialize_channel_doc ..

lemma channel_lookup_returns:
  "\<exists>ch. (if is_valid cid then and_then (ObjectId cid) (\<lambda>oid. Inr (f oid)) else Inr g) = Inr ch"
  by (cases cid) (simp_all add: is_valid_def ObjectId_def)

lemma send_message_eq_Inr:
  "send_message cid p (Some st) = Inr r \<longleftrightarrow>
     cursor_find (colls st ''message'') [(''_id'', VOid (next_oid st))] = []
     \<and> r = (Some [(''author_id'', VStr (msg_author_id p)),
                  (''author_name'', VStr (msg_author_name p)),
                  (''content'', VStr (msg_content p)),
                  (''attachments'', VList (map VStr (msg_attachments p))),
                  (''channel_id'', serialize_id cid),
                  (''created_at'', VTime (clock st)), (''id'', VStr (str_oid (next_oid st)))],
            insert_doc ''message''
              (stored_doc (next_oid st) (clock st)
                 (AList.update ''channel_id'' cid (MessageIn_dump p))) st)"
proof -
  obtain ch where
    "(if is_valid cid
      then and_then (ObjectId cid)
             (\<lambda>oid. Inr (find_one (colls st ''channel'') [(''_id'', VOid oid)]))
      else Inr (find_one (colls st ''channel'') [(''id'', cid)])) = Inr ch"
    using channel_lookup_returns
      [of cid "\<lambda>oid. find_one (colls st ''channel'') [(''_id'', VOid oid)]"
          "find_one (colls st ''channel'') [(''id'', cid)]"]
    by blast
  then show ?thesis
    unfolding send_message_def Let_def
    by (simp add: db_collection_def create_then_read_eq_Inr serialize_message_doc)
qed

lemma map_of_update_other: "k' \<noteq> k \<Longrightarrow> map_of (AList.update k v al) k' = map_of al k'"
  by (simp add: update_conv')

lemma hex_of_0: "hex_of k 0 = replicate k (CHR ''0'')"
  by (induction k) (simp_all add: hexdigit_def replicate_append_same)

lemma str_oid_0: "str_oid 0 = ''000000000000000000000000''"
  by (simp add: str_oid_def hex_of_0 eval_nat_numeral)

text \<open>
  C1, as the code has it. For every body that validates as a \<open>ServerIn\<close>, on a connected
  store whose write succeeds, \<open>POST /api/servers\<close> returns the created document: \<open>id\<close>
  is the new identifier as a non-empty string, \<open>name\<close>, \<open>icon_url\<close>, \<open>description\<close> and
  \<open>owner_id\<close> are those of the payload (null where the body gave none), and
  \<open>created_at\<close> is the creation timestamp. There is no \<open>member_ids\<close> field: \<open>ServerIn\<close>
  declares none, and nothing adds one.
\<close>

theorem post_server_returns:
  assumes "ServerIn_validate body = Inr p"
    and "cursor_find (colls st ''server'') [(''_id'', VOid (next_oid st))] = []"
  shows "post_server body (Some st) =
           Inr (Some [(''name'', VStr (sv_name p)), (''icon_url'', opt_str (sv_icon_url p)),
                      (''description'', opt_str (sv_description p)),
                      (''owner_id'', opt_str (sv_owner_id p)),
                      (''created_at'', VTime (clock st)),
                      (''id'', VStr (str_oid (next_oid st)))],
                insert_doc ''server'' (stored_doc (next_oid st) (clock st) (ServerIn_dump p)) st)
         \<and> str_oid (next_oid st) \<noteq> []"
  using assms create_server_eq_Inr [of p st] by (simp add: post_server_def str_oid_nonempty)

theorem post_server_returns_witness:
  "ServerIn_validate [(''name'', VStr ''Test'')] =
     Inr \<lparr>sv_name = ''Test'', sv_icon_url = None, sv_description = None, sv_owner_id = None\<rparr>
   \<and> cursor_find (colls (empty_store 0 0) ''server'') [(''_id'', VOid 0)] = []
   \<and> post_server [(''name'', VStr ''Test'')] (Some (empty_store 0 0)) =
       Inr (Some [(''name'', VStr ''Test''), (''icon_url'', VNull), (''description'', VNull),
                  (''owner_id'', VNull), (''created_at'', VTime 0),
                  (''id'', VStr ''000000000000000000000000'')],
            insert_doc ''server''
              (stored_doc 0 0
                 (ServerIn_dump \<lparr>sv_name = ''Test'', sv_icon_url = None, sv_description = None,
                                 sv_owner_id = None\<rparr>))
              (empty_store 0 0))"
  using post_server_returns
    [of "[(''name'', VStr ''Test'')]"
        "\<lparr>sv_name = ''Test'', sv_icon_url = None, sv_description = None, sv_owner_id = None\<rparr>"
        "empty_store 0 0"]
  by (simp add: ServerIn_validate_def field_str_def field_opt_str_def cursor_find_def
      empty_store_def opt_str_def str_oid_0)

text \<open>
  C1 as stated fails: the response to the body \<open>{"name": "Test"}\<close> has no \<open>member_ids\<close>
  field, so it is not the document the claim gives.
\<close>

theorem post_server_member_ids_counterexample:
  "map_sum id fst (post_server [(''name'', VStr ''Test'')] (Some (empty_store 0 0))) =
     Inr (Some [(''name'', VStr ''Test''), (''icon_url'', VNull), (''description'', VNull),
                (''owner_id'', VNull), (''created_at'', VTime 0),
                (''id'', VStr ''000000000000000000000000'')])
   \<and> resp_field
        (Some [(''name'', VStr ''Test''), (''icon_url'', VNull), (''description'', VNull),
               (''owner_id'', VNull), (''created_at'', VTime 0),
               (''id'', VStr ''000000000000000000000000'')]) ''member_ids'' \<noteq> Some (VList [])"
proof -
  have "cursor_find (colls (empty_store 0 0) ''server'') [(''_id'', VOid (next_oid (empty_store 0 0)))] = []"
    by (simp add: cursor_find_def empty_store_def)
  then obtain st' where "create_server \<lparr>sv_name = ''Test'', sv_icon_url = None, sv_description = None, sv_owner_id = None\<rparr> (Some (empty_store 0 0)) =
     Inr (Some [(''name'', VStr ''Test''), (''icon_url'', VNull), (''description'', VNull),
                (''owner_id'', VNull), (''created_at'', VTime 0),
                (''id'', VStr ''000000000000000000000000'')], st')"
    using create_server_eq_Inr [of "\<lparr>sv_name = ''Test'', sv_icon_url = None, sv_description = None, sv_owner_id = None\<rparr>" "empty_store 0 0"]
    by (simp add: opt_str_def empty_store_def str_oid_0)
  then show ?thesis
    by (simp add: post_server_def ServerIn_validate_def field_str_def field_opt_str_def resp_field_def)
qed

text \<open>
  C4. For every \<open>ChannelIn\<close> the handler receives and every path parameter
  \<open>server_id\<close>, on a connected store whose write succeeds,
  \<open>POST /api/servers/{server_id}/channels\<close> stores and returns a Channel whose
  \<open>server_id\<close> is the path parameter. The body cannot set it: \<open>ChannelIn\<close> has no such
  field, and the handler assigns \<open>data["server_id"]\<close> after \<open>model_dump\<close>, which
  overrides whatever the dumped dict holds under that key.
\<close>

theorem create_channel_server_id:
  assumes "cursor_find (colls st ''channel'') [(''_id'', VOid (next_oid st))] = []"
  shows "create_channel (VStr server_id) p (Some st) =
           Inr (Some [(''name'', VStr (ch_name p)), (''type'', VStr (ch_type p)),
                      (''topic'', opt_str (ch_topic p)),
                      (''is_private'', VBool (ch_is_private p)),
                      (''server_id'', VStr server_id),
                      (''created_at'', VTime (clock st)),
                      (''id'', VStr (str_oid (next_oid st)))],
                insert_doc ''channel''
                  (stored_doc (next_oid st) (clock st)
                     (AList.update ''server_id'' (VStr server_id) (ChannelIn_dump p))) st)
         \<and> map_of (stored_doc (next_oid st) (clock st)
                     (AList.update ''server_id'' (VStr server_id) (ChannelIn_dump p)))
               ''server_id'' = Some (VStr server_id)
         \<and> map_of (stored_doc (next_oid st) (clock st)
                     (AList.update ''server_id'' (VStr server_id)
                        (AList.update ''server_id'' v (ChannelIn_dump p))))
               ''server_id'' = Some (VStr server_id)"
  using assms create_channel_eq_Inr [of "VStr server_id" p st]
  by (simp add: serialize_id_def stored_doc_def update_conv')

theorem create_channel_server_id_witness:
  "cursor_find (colls (empty_store 0 0) ''channel'') [(''_id'', VOid 0)] = []
   \<and> create_channel (VStr ''s1'')
        \<lparr>ch_name = ''general'', ch_type = ''voice'', ch_topic = Some ''talk'',
          ch_is_private = True\<rparr>
        (Some (empty_store 0 0)) =
       Inr (Some [(''name'', VStr ''general''), (''type'', VStr ''voice''),
                  (''topic'', VStr ''talk''), (''is_private'', VBool True),
                  (''server_id'', VStr ''s1''),
                  (''created_at'', VTime 0), (''id'', VStr ''000000000000000000000000'')],
            insert_doc ''channel''
              (stored_doc 0 0
                 (AList.update ''server_id'' (VStr ''s1'')
                    (ChannelIn_dump \<lparr>ch_name = ''general'', ch_type = ''voice'',
                                      ch_topic = Some ''talk'', ch_is_private = True\<rparr>)))
              (empty_store 0 0))
   \<and> map_of (stored_doc 0 0
               (AList.update ''server_id'' (VStr ''s1'')
                  (AList.update ''server_id'' (VStr ''other'')
                     (ChannelIn_dump \<lparr>ch_name = ''general'', ch_type = ''voice'',
                                       ch_topic = Some ''talk'', ch_is_private = True\<rparr>))))
         ''server_id'' = Some (VStr ''s1'')"
  using create_channel_server_id
    [of "empty_store 0 0" "''s1''"
        "\<lparr>ch_name = ''general'', ch_type = ''voice'', ch_topic = Some ''talk'',
          ch_is_private = True\<rparr>" "VStr ''other''"]
  by (simp add: cursor_find_def empty_store_def opt_str_def str_oid_0)

text \<open>
  C5. For every body that validates as a \<open>MessageIn\<close> and every \<open>channel_id\<close>, on a
  connected store whose write succeeds, \<open>POST /api/channels/{channel_id}/messages\<close>
  succeeds and returns the stored Message with that \<open>channel_id\<close>. Nothing is assumed
  of the channel collection: the result is the same whether the lookup finds a
  Channel or not.
\<close>

theorem post_message_any_channel:
  assumes "MessageIn_validate body = Inr p"
    and "cursor_find (colls st ''message'') [(''_id'', VOid (next_oid st))] = []"
  shows "post_message channel_id body (Some st) =
           Inr (Some [(''author_id'', VStr (msg_author_id p)),
                      (''author_name'', VStr (msg_author_name p)),
                      (''content'', VStr (msg_content p)),
                      (''attachments'', VList (map VStr (msg_attachments p))),
                      (''channel_id'', VStr channel_id),
                      (''created_at'', VTime (clock st)),
                      (''id'', VStr (str_oid (next_oid st)))],
                insert_doc ''message''
                  (stored_doc (next_oid st) (clock st)
                     (AList.update ''channel_id'' (VStr channel_id) (MessageIn_dump p))) st)"
  using assms send_message_eq_Inr [of "VStr channel_id" p st]
  by (simp add: post_message_def serialize_id_def)

theorem post_message_any_channel_witness:
  "MessageIn_validate
     [(''author_id'', VStr ''u1''), (''author_name'', VStr ''Ann''), (''content'', VStr ''hi'')] =
     Inr \<lparr>msg_author_id = ''u1'', msg_author_name = ''Ann'', msg_content = ''hi'',
          msg_attachments = []\<rparr>
   \<and> cursor_find (colls (empty_store 0 0) ''message'') [(''_id'', VOid 0)] = []
   \<and> find_one (colls (empty_store 0 0) ''channel'') [(''id'', VStr ''nope'')] = None
   \<and> post_message ''nope''
        [(''author_id'', VStr ''u1''), (''author_name'', VStr ''Ann''), (''content'', VStr ''hi'')]
        (Some (empty_store 0 0)) =
       Inr (Some [(''author_id'', VStr ''u1''), (''author_name'', VStr ''Ann''),
                  (''content'', VStr ''hi''), (''attachments'', VList []),
                  (''channel_id'', VStr ''nope''), (''created_at'', VTime 0),
                  (''id'', VStr ''000000000000000000000000'')],
            insert_doc ''message''
              (stored_doc 0 0
                 (AList.update ''channel_id'' (VStr ''nope'')
                    (MessageIn_dump \<lparr>msg_author_id = ''u1'', msg_author_name = ''Ann'',
                                      msg_content = ''hi'', msg_attachments = []\<rparr>)))
              (empty_store 0 0))"
  using post_message_any_channel
    [of "[(''author_id'', VStr ''u1''), (''author_name'', VStr ''Ann''), (''content'', VStr ''hi'')]"
        "\<lparr>msg_author_id = ''u1'', msg_author_name = ''Ann'', msg_content = ''hi'',
          msg_attachments = []\<rparr>"
        "empty_store 0 0" "''nope''"]
  by (simp add: MessageIn_validate_def field_str_def field_str_list_def cursor_find_def
      find_one_def empty_store_def str_oid_0)

section \<open>The diagnostic route and message listing\<close>


text \<open>
  C8, as the code has it. \<open>GET /test\<close> never fails: \<open>test_database\<close> returns a response
  whatever its environment does, with the two configuration fields set from the
  environment. An exception raised by \<open>db.list_collection_names()\<close>, or by reading
  \<open>db.name\<close> (any exception on the read after \<open>hasattr\<close>, any but an \<open>AttributeError\<close>
  on the read inside \<open>hasattr\<close>), is caught, and its text cut to at most 50 characters
  ends the \<open>database\<close> status string. An \<open>AttributeError\<close> raised inside \<open>hasattr\<close> is
  swallowed instead: the attribute counts as absent and the error is not rendered.
\<close>

theorem test_database_catches:
  "(hasattr_name h = Raises x \<and> \<not> is_attribute_error x \<longrightarrow>
      database (test_database (Some h) env_url env_name)
        = cross_mark @ ascii '' Error: '' @ take 50 (exc_text x))
   \<and> (hasattr_name h = Returns v \<and> name_read h = Raises x \<longrightarrow>
      database (test_database (Some h) env_url env_name)
        = cross_mark @ ascii '' Error: '' @ take 50 (exc_text x))
   \<and> ((hasattr_name h = Raises y \<and> is_attribute_error y
         \<or> hasattr_name h = Returns v \<and> name_read h = Returns w)
        \<and> list_collection_names h = Raises x \<longrightarrow>
      database (test_database (Some h) env_url env_name)
        = warning_sign @ ascii ''  Connected but Error: '' @ take 50 (exc_text x))
   \<and> (hasattr_name h = Raises y \<and> is_attribute_error y
        \<and> list_collection_names h = Returns cs \<longrightarrow>
      database (test_database (Some h) env_url env_name)
        = check_mark @ ascii '' Connected & Working'')
   \<and> length (take 50 (exc_text x)) \<le> 50
   \<and> database_url (test_database db env_url env_name) = Some (getenv_set env_url)
   \<and> database_name (test_database db env_url env_name) = Some (getenv_set env_name)"
  by (auto simp: test_database_def name_or_default_def Let_def
      split: option.splits outcome.splits)

theorem test_database_catches_witness:
  "\<not> is_attribute_error (Exc False (replicate 60 120))
   \<and> database (test_database
        (Some \<lparr>hasattr_name = Raises (Exc False (replicate 60 120)), name_read = Returns [],
               list_collection_names = Returns []\<rparr>)
        None None)
       = cross_mark @ ascii '' Error: '' @ replicate 50 120
   \<and> database (test_database
        (Some \<lparr>hasattr_name = Returns [], name_read = Raises (Exc True (replicate 60 120)),
               list_collection_names = Returns []\<rparr>)
        None None)
       = cross_mark @ ascii '' Error: '' @ replicate 50 120
   \<and> database (test_database
        (Some \<lparr>hasattr_name = Returns [], name_read = Returns [],
               list_collection_names = Raises (Exc False (replicate 60 120))\<rparr>)
        None None)
       = warning_sign @ ascii ''  Connected but Error: '' @ replicate 50 120
   \<and> database (test_database
        (Some \<lparr>hasattr_name = Raises (Exc True (replicate 60 120)), name_read = Returns [],
               list_collection_names = Returns []\<rparr>)
        None None)
       = check_mark @ ascii '' Connected & Working''"
  using test_database_catches
    [of "\<lparr>hasattr_name = Raises (Exc False (replicate 60 120)), name_read = Returns [],
          list_collection_names = Returns []\<rparr>"
        "Exc False (replicate 60 120)" None None "[]" "Exc True []" "[]" "[]" None]
    test_database_catches
    [of "\<lparr>hasattr_name = Returns [], name_read = Raises (Exc True (replicate 60 120)),
          list_collection_names = Returns []\<rparr>"
        "Exc True (replicate 60 120)" None None "[]" "Exc True []" "[]" "[]" None]
    test_database_catches
    [of "\<lparr>hasattr_name = Returns [], name_read = Returns [],
          list_collection_names = Raises (Exc False (replicate 60 120))\<rparr>"
        "Exc False (replicate 60 120)" None None "[]" "Exc True []" "[]" "[]" None]
    test_database_catches
    [of "\<lparr>hasattr_name = Raises (Exc True (replicate 60 120)), name_read = Returns [],
          list_collection_names = Returns []\<rparr>"
        "Exc False []" None None "[]" "Exc True (replicate 60 120)" "[]" "[]" None]
  by simp

text \<open>
  C8 as stated fails: an \<open>AttributeError\<close> raised while \<open>hasattr\<close> probes \<open>db.name\<close>
  is an internal error of the check that no field of the response renders; the
  response is that of a handle with no \<open>name\<close> attribute and no error.
\<close>

theorem test_database_swallows_counterexample:
  "test_database
     (Some \<lparr>hasattr_name = Raises (Exc True (ascii ''boom'')), name_read = Returns [],
            list_collection_names = Returns []\<rparr>) None None
   = \<lparr>backend = check_mark @ ascii '' Running'',
      database = check_mark @ ascii '' Connected & Working'',
      database_url = Some (cross_mark @ ascii '' Not Set''),
      database_name = Some (cross_mark @ ascii '' Not Set''),
      connection_status = ascii ''Connected'',
      collections = []\<rparr>"
  by (simp add: test_database_def name_or_default_def getenv_set_def)

lemma time_of_serialize_id:
  "(case serialize_id v of VTime t \<Rightarrow> Some t | _ \<Rightarrow> None) = (case v of VTime t \<Rightarrow> Some t | _ \<Rightarrow> None)"
  by (cases v) (simp_all add: serialize_id_def)

lemma resp_time_serialize:
  assumes "distinct (map fst d)"
  shows "resp_time (serialize_doc (Some d)) = time_of ''created_at'' d"
proof (cases "map_of d ''created_at''")
  case None
  then have "''created_at'' \<notin> fst ` set d" by (simp add: map_of_eq_None_iff)
  then have "map_of (foldl serialize_item [] d) ''created_at'' = None"
    by (simp add: foldl_serialize_other)
  with None show ?thesis
    by (simp add: resp_time_def serialize_doc_def time_of_def)
next
  case (Some v)
  then have "resp_field (serialize_doc (Some d)) ''created_at'' = Some (serialize_id v)"
    using assms by (simp add: resp_field_serialize)
  moreover obtain d' where "serialize_doc (Some d) = Some d'"
    using serialize_doc_Some by blast
  ultimately show ?thesis
    using Some by (simp add: resp_time_def resp_field_def time_of_def time_of_serialize_id)
qed

lemma map_resp_time_serialize_all:
  "list_all (\<lambda>d. distinct (map fst d)) ds \<Longrightarrow>
   map resp_time (serialize_all ds) = map (time_of ''created_at'') ds"
  by (induction ds) (simp_all add: serialize_all_def resp_time_serialize)

lemma cursor_limit_Inr:
  "cursor_limit n c = Inr ms \<Longrightarrow> ms = (if n = 0 then c else take (nat \<bar>n\<bar>) c)"
  by (auto simp: cursor_limit_def split: if_splits)

lemma set_cursor_limit: "cursor_limit n c = Inr ms \<Longrightarrow> set ms \<subseteq> set c"
  by (auto dest!: cursor_limit_Inr dest: in_set_takeD split: if_splits)

lemma sorted_cursor_limit:
  "cursor_limit n c = Inr ms \<Longrightarrow> sorted (map f c) \<Longrightarrow> sorted (map f ms)"
  by (auto dest!: cursor_limit_Inr simp: take_map [symmetric] sorted_wrt_take split: if_splits)

lemma length_cursor_limit: "cursor_limit n c = Inr ms \<Longrightarrow> 0 < n \<Longrightarrow> int (length ms) \<le> n"
  by (auto dest!: cursor_limit_Inr)

lemma list_messages_eq_Inr:
  "list_messages cid limit (Some st) = Inr r \<longleftrightarrow>
     (\<exists>ms. cursor_limit (case limit of None \<Rightarrow> 50 | Some n \<Rightarrow> n)
             (cursor_sort ''created_at''
                (cursor_find (colls st ''message'') [(''channel_id'', cid)])) = Inr ms
           \<and> r = serialize_all ms)"
  by (auto simp: list_messages_def db_collection_def and_then_eq_Inr)

lemma channel_of_serialize_all:
  "list_all (\<lambda>d. distinct (map fst d) \<and> map_of d ''channel_id'' = Some (VStr cid)) ms \<Longrightarrow>
   list_all (\<lambda>r. resp_field r ''channel_id'' = Some (VStr cid)) (serialize_all ms)"
  by (induction ms) (simp_all add: serialize_all_def resp_field_serialize serialize_id_def)

text \<open>
  What the listing does hold: whenever it returns, the messages are those of the
  channel, in non-decreasing \<open>created_at\<close> order, and from a limit of 1 on (50 when
  omitted) there are at most \<open>limit\<close> of them.
\<close>

lemma list_messages_sorted_capped:
  assumes "list_all (\<lambda>d. distinct (map fst d)) (colls st ''message'')"
    and "list_messages (VStr channel_id) limit (Some st) = Inr r"
  shows "list_all (\<lambda>m. resp_field m ''channel_id'' = Some (VStr channel_id)) r"
    and "sorted (map resp_time r)"
    and "limit = None \<Longrightarrow> length r \<le> 50"
    and "limit = Some n \<Longrightarrow> 0 < n \<Longrightarrow> int (length r) \<le> n"
proof -
  define k where "k = (case limit of None \<Rightarrow> 50 | Some n \<Rightarrow> n)"
  define found where
    "found = cursor_find (colls st ''message'') [(''channel_id'', VStr channel_id)]"
  from assms(2) obtain ms where
    ms: "cursor_limit k (cursor_sort ''created_at'' found) = Inr ms" and r: "r = serialize_all ms"
    unfolding list_messages_eq_Inr k_def found_def by blast
  have "set ms \<subseteq> set (cursor_sort ''created_at'' found)"
    using ms by (rule set_cursor_limit)
  then have sub: "set ms \<subseteq> set found" by (simp add: cursor_sort_def)
  have sel: "list_all (\<lambda>d. distinct (map fst d) \<and> map_of d ''channel_id'' = Some (VStr channel_id)) ms"
    using sub assms(1) by (auto simp: list_all_iff found_def cursor_find_def matches_def)
  then have dist: "list_all (\<lambda>d. distinct (map fst d)) ms"
    by (simp add: list_all_iff)
  have srt: "sorted (map (time_of ''created_at'') ms)"
    using ms by (rule sorted_cursor_limit) (simp add: cursor_sort_def)
  have len: "length r = length ms"
    by (simp add: r serialize_all_def)
  show "list_all (\<lambda>m. resp_field m ''channel_id'' = Some (VStr channel_id)) r"
    unfolding r using sel by (rule channel_of_serialize_all)
  show "sorted (map resp_time r)"
    using srt by (simp add: r map_resp_time_serialize_all [OF dist])
  show "length r \<le> 50" if "limit = None"
    using length_cursor_limit [OF ms] that by (simp add: len k_def)
  show "int (length r) \<le> n" if "limit = Some n" "0 < n"
    using length_cursor_limit [OF ms] that by (simp add: len k_def)
qed

text \<open>
  C2 fails at \<open>limit = 0\<close>, a limit the claim covers. After one message was sent to a
  channel of an empty store, \<open>GET /api/channels/{channel_id}/messages\<close> with
  \<open>limit = 0\<close> returns that message: one item, where the claim allows none. The
  handler hands \<open>limit\<close> to the cursor without a guard, and the cursor takes 0 as
  "no limit".
\<close>

theorem list_messages_limit_zero:
  "send_message (VStr ''c'') \<lparr>msg_author_id = ''u1'', msg_author_name = ''Ann'', msg_content = ''hi'', msg_attachments = []\<rparr> (Some (empty_store 0 0)) =
     Inr (Some [(''author_id'', VStr ''u1''), (''author_name'', VStr ''Ann''),
               (''content'', VStr ''hi''), (''attachments'', VList []),
               (''channel_id'', VStr ''c''), (''created_at'', VTime 0),
               (''id'', VStr ''000000000000000000000000'')], (insert_doc ''message''
          (stored_doc 0 0 (AList.update ''channel_id'' (VStr ''c'') (MessageIn_dump
             \<lparr>msg_author_id = ''u1'', msg_author_name = ''Ann'', msg_content = ''hi'', msg_attachments = []\<rparr>)))
          (empty_store 0 0)))
   \<and> list_messages (VStr ''c'') (Some 0) (Some (insert_doc ''message''
          (stored_doc 0 0 (AList.update ''channel_id'' (VStr ''c'') (MessageIn_dump
             \<lparr>msg_author_id = ''u1'', msg_author_name = ''Ann'', msg_content = ''hi'', msg_attachments = []\<rparr>)))
          (empty_store 0 0))) = Inr [Some [(''author_id'', VStr ''u1''), (''author_name'', VStr ''Ann''),
               (''content'', VStr ''hi''), (''attachments'', VList []),
               (''channel_id'', VStr ''c''), (''created_at'', VTime 0),
               (''id'', VStr ''000000000000000000000000'')]]
   \<and> \<not> int (length [Some [(''author_id'', VStr ''u1''), (''author_name'', VStr ''Ann''),
               (''content'', VStr ''hi''), (''attachments'', VList []),
               (''channel_id'', VStr ''c''), (''created_at'', VTime 0),
               (''id'', VStr ''000000000000000000000000'')]]) \<le> 0"
proof -
  have "send_message (VStr ''c'') \<lparr>msg_author_id = ''u1'', msg_author_name = ''Ann'', msg_content = ''hi'', msg_attachments = []\<rparr> (Some (empty_store 0 0)) = Inr (Some [(''author_id'', VStr ''u1''), (''author_name'', VStr ''Ann''),
               (''content'', VStr ''hi''), (''attachments'', VList []),
               (''channel_id'', VStr ''c''), (''created_at'', VTime 0),
               (''id'', VStr ''000000000000000000000000'')], (insert_doc ''message''
          (stored_doc 0 0 (AList.update ''channel_id'' (VStr ''c'') (MessageIn_dump
             \<lparr>msg_author_id = ''u1'', msg_author_name = ''Ann'', msg_content = ''hi'', msg_attachments = []\<rparr>)))
          (empty_store 0 0)))"
    unfolding send_message_eq_Inr
    by (simp add: empty_store_def cursor_find_def serialize_id_def str_oid_0)
  moreover have "list_messages (VStr ''c'') (Some 0) (Some (insert_doc ''message''
          (stored_doc 0 0 (AList.update ''channel_id'' (VStr ''c'') (MessageIn_dump
             \<lparr>msg_author_id = ''u1'', msg_author_name = ''Ann'', msg_content = ''hi'', msg_attachments = []\<rparr>)))
          (empty_store 0 0))) = Inr [Some [(''author_id'', VStr ''u1''), (''author_name'', VStr ''Ann''),
               (''content'', VStr ''hi''), (''attachments'', VList []),
               (''channel_id'', VStr ''c''), (''created_at'', VTime 0),
               (''id'', VStr ''000000000000000000000000'')]]"
    using serialize_message_doc [of 0 0 "VStr ''c''" "\<lparr>msg_author_id = ''u1'', msg_author_name = ''Ann'', msg_content = ''hi'', msg_attachments = []\<rparr>"]
    by (simp add: list_messages_def db_collection_def colls_insert_doc empty_store_def
        cursor_limit_def cursor_sort_def cursor_find_def matches_def serialize_all_def
        serialize_id_def str_oid_0)
       (simp add: stored_doc_def MessageIn_dump_def)
  ultimately show ?thesis by simp
qed

section \<open>Every response exposes its identifier\<close>

lemma seed_demo_eq_Inr:
  "seed_demo (Some st) = Inr ((server, channels), st3) \<longleftrightarrow>
     (\<exists>st1 server_id st2.
        ensure_server st = Inr (server, st1)
        \<and> getitem server ''id'' = Inr server_id
        \<and> ensure_channels server_id st1 = Inr st2
        \<and> list_channels server_id (Some st2) = Inr channels
        \<and> ensure_messages channels st2 = Inr st3)"
  by (auto simp: seed_demo_def and_then_eq_Inr)

lemma wf_stored_doc:
  "distinct (map fst data) \<Longrightarrow> map_of data ''id'' = None \<Longrightarrow> wf_doc (stored_doc oid t data)"
  by (simp add: wf_doc_def stored_doc_def distinct_update update_conv')

lemma wf_insert_doc: "wf_store st \<Longrightarrow> wf_doc d \<Longrightarrow> wf_store (insert_doc c d st)"
  by (simp add: wf_store_def colls_insert_doc)

lemma create_server_wf:
  "wf_store st \<Longrightarrow> create_server p (Some st) = Inr (r, st') \<Longrightarrow> wf_store st'"
  by (auto simp: create_server_eq_Inr ServerIn_dump_def intro!: wf_insert_doc wf_stored_doc)

lemma create_channel_wf:
  "wf_store st \<Longrightarrow> create_channel sid p (Some st) = Inr (r, st') \<Longrightarrow> wf_store st'"
  by (auto simp: create_channel_eq_Inr ChannelIn_dump_def intro!: wf_insert_doc wf_stored_doc)

lemma send_message_wf:
  "wf_store st \<Longrightarrow> send_message cid p (Some st) = Inr (r, st') \<Longrightarrow> wf_store st'"
  by (auto simp: send_message_eq_Inr MessageIn_dump_def intro!: wf_insert_doc wf_stored_doc)

lemma seed_channels_wf:
  "wf_store st \<Longrightarrow> seed_channels sid names st = Inr st' \<Longrightarrow> wf_store st'"
proof (induction names arbitrary: st)
  case Nil
  then show ?case by simp
next
  case (Cons name names)
  from Cons.prems(2) obtain r st1 where
    "create_channel sid (seed_channel name) (Some st) = Inr (r, st1)"
    "seed_channels sid names st1 = Inr st'"
    by (auto simp: and_then_eq_Inr)
  then show ?case using Cons.IH Cons.prems(1) create_channel_wf by blast
qed

lemma seed_messages_wf:
  "wf_store st \<Longrightarrow> seed_messages cid ws st = Inr st' \<Longrightarrow> wf_store st'"
proof (induction ws arbitrary: st)
  case Nil
  then show ?case by simp
next
  case (Cons w ws)
  from Cons.prems(2) obtain r st1 where
    "send_message cid (seed_message w) (Some st) = Inr (r, st1)"
    "seed_messages cid ws st1 = Inr st'"
    by (auto simp: and_then_eq_Inr)
  then show ?case using Cons.IH Cons.prems(1) send_message_wf by blast
qed

lemma ensure_server_wf:
  "wf_store st \<Longrightarrow> ensure_server st = Inr (r, st') \<Longrightarrow> wf_store st'"
  by (auto simp: ensure_server_def Let_def split: if_splits dest: create_server_wf)

lemma ensure_channels_wf:
  "wf_store st \<Longrightarrow> ensure_channels sid st = Inr st' \<Longrightarrow> wf_store st'"
  by (auto simp: ensure_channels_def split: if_splits dest: seed_channels_wf)

lemma ensure_messages_wf:
  "wf_store st \<Longrightarrow> ensure_messages channels st = Inr st' \<Longrightarrow> wf_store st'"
  by (auto simp: ensure_messages_def and_then_eq_Inr split: if_splits list.splits
      dest: seed_messages_wf)

lemma seed_demo_wf:
  assumes "wf_store st" and "seed_demo (Some st) = Inr (rs, st')"
  shows "wf_store st'"
proof -
  obtain server channels where rs: "rs = (server, channels)" by (cases rs)
  from assms(2) obtain st1 server_id st2 where
    "ensure_server st = Inr (server, st1)"
    "ensure_channels server_id st1 = Inr st2"
    "ensure_messages channels st2 = Inr st'"
    unfolding rs seed_demo_eq_Inr by blast
  then show ?thesis
    using assms(1) ensure_server_wf ensure_channels_wf ensure_messages_wf by blast
qed

lemma wf_empty_store: "wf_store (empty_store n t)"
  by (simp add: wf_store_def empty_store_def)

lemma reachable_wf: "reachable st \<Longrightarrow> wf_store st"
proof (induction rule: reachable.induct)
  case (init n t)
  show ?case by (rule wf_empty_store)
next
  case (server st p r st')
  then show ?case using create_server_wf by blast
next
  case (channel st sid c r st')
  then show ?case using create_channel_wf by blast
next
  case (message st cid m r st')
  then show ?case using send_message_wf by blast
next
  case (seed st rs st')
  then show ?case using seed_demo_wf by blast
qed

lemma exposes_serialize:
  assumes "wf_doc d"
  shows "exposes d (serialize_doc (Some d))"
proof -
  from assms obtain oid where oid: "map_of d ''_id'' = Some (VOid oid)"
    by (auto simp: wf_doc_def split: option.splits val.splits)
  from assms have dist: "distinct (map fst d)" and noid: "''id'' \<notin> fst ` set d"
    by (simp_all add: wf_doc_def map_of_eq_None_iff)
  from oid have ne: "d \<noteq> []" by auto
  obtain d' where d': "serialize_doc (Some d) = Some d'"
    using serialize_doc_Some by blast
  then have "serialized d'" by (rule serialize_doc_serialized)
  then have "map_of d' ''_id'' = None"
    by (simp add: serialized_def map_of_eq_None_iff)
  moreover have "map_of d' ''id'' = Some (VStr (str_oid oid))"
    using foldl_serialize_id [OF noid dist oid, of "[]"] d' ne
    by (simp add: serialize_doc_def serialize_id_def)
  ultimately show ?thesis
    by (simp add: exposes_def oid d' resp_field_def)
qed

lemma exposed_from_serialize_all:
  assumes "set ds \<subseteq> set c" and "list_all wf_doc c"
  shows "list_all (exposed_from c) (serialize_all ds)"
proof -
  have "exposed_from c (serialize_doc (Some d))" if "d \<in> set ds" for d
  proof -
    from that assms have "d \<in> set c" "wf_doc d" by (auto simp: list_all_iff)
    then show ?thesis
      unfolding exposed_from_def list_ex_iff using exposes_serialize by blast
  qed
  then show ?thesis by (simp add: serialize_all_def list_all_iff)
qed

lemma wf_colls: "wf_store st \<Longrightarrow> list_all wf_doc (colls st c)"
  by (simp add: wf_store_def)

lemma list_servers_exposed:
  assumes "wf_store st" and "list_servers (Some st) = Inr rs"
  shows "list_all (exposed_from (colls st ''server'')) rs"
proof -
  from assms(2) have "rs = serialize_all (cursor_find (colls st ''server'') [])"
    by (auto simp: list_servers_def get_documents_def)
  moreover have "set (cursor_find (colls st ''server'') []) \<subseteq> set (colls st ''server'')"
    by (auto simp: cursor_find_def)
  ultimately show ?thesis
    using exposed_from_serialize_all wf_colls [OF assms(1)] by blast
qed

lemma list_channels_exposed:
  assumes "wf_store st" and "list_channels sid (Some st) = Inr rs"
  shows "list_all (exposed_from (colls st ''channel'')) rs"
proof -
  from assms(2) have
    "rs = serialize_all (cursor_find (colls st ''channel'') [(''server_id'', sid)])"
    by (auto simp: list_channels_def get_documents_def)
  moreover have
    "set (cursor_find (colls st ''channel'') [(''server_id'', sid)]) \<subseteq> set (colls st ''channel'')"
    by (auto simp: cursor_find_def)
  ultimately show ?thesis
    using exposed_from_serialize_all wf_colls [OF assms(1)] by blast
qed

lemma list_messages_exposed:
  assumes "wf_store st" and "list_messages cid limit (Some st) = Inr rs"
  shows "list_all (exposed_from (colls st ''message'')) rs"
proof -
  from assms(2) obtain ms where
    ms: "cursor_limit (case limit of None \<Rightarrow> 50 | Some n \<Rightarrow> n)
           (cursor_sort ''created_at'' (cursor_find (colls st ''message'') [(''channel_id'', cid)]))
         = Inr ms"
    and rs: "rs = serialize_all ms"
    by (auto simp: list_messages_def db_collection_def and_then_eq_Inr)
  from ms have "set ms \<subseteq> set (cursor_sort ''created_at''
      (cursor_find (colls st ''message'') [(''channel_id'', cid)]))"
    by (rule set_cursor_limit)
  then have "set ms \<subseteq> set (colls st ''message'')"
    by (auto simp: cursor_sort_def cursor_find_def)
  then show ?thesis
    unfolding rs using exposed_from_serialize_all wf_colls [OF assms(1)] by blast
qed

lemma exposes_created:
  "map_of fs ''_id'' = None \<Longrightarrow> map_of fs ''id'' = None \<Longrightarrow>
   exposes (stored_doc oid t data)
     (Some (fs @ [(''created_at'', VTime t'), (''id'', VStr (str_oid oid))]))"
  by (simp add: exposes_def stored_doc_def update_conv' resp_field_def map_add_def)

lemma exposed_from_insert_doc:
  "exposes d r \<Longrightarrow> exposed_from (colls (insert_doc c d st) c) r"
  by (simp add: exposed_from_def colls_insert_doc)

lemma create_server_exposed:
  "create_server p (Some st) = Inr (r, st') \<Longrightarrow> exposed_from (colls st' ''server'') r"
  using exposes_created [of "[(''name'', VStr (sv_name p)), (''icon_url'', opt_str (sv_icon_url p)),
      (''description'', opt_str (sv_description p)), (''owner_id'', opt_str (sv_owner_id p))]"]
  by (auto simp: create_server_eq_Inr intro!: exposed_from_insert_doc)

lemma create_channel_exposed:
  "create_channel sid p (Some st) = Inr (r, st') \<Longrightarrow> exposed_from (colls st' ''channel'') r"
  using exposes_created [of "[(''name'', VStr (ch_name p)), (''type'', VStr (ch_type p)),
      (''topic'', opt_str (ch_topic p)), (''is_private'', VBool (ch_is_private p)),
      (''server_id'', serialize_id sid)]"]
  by (auto simp: create_channel_eq_Inr intro!: exposed_from_insert_doc)

lemma send_message_exposed:
  "send_message cid p (Some st) = Inr (r, st') \<Longrightarrow> exposed_from (colls st' ''message'') r"
  using exposes_created [of "[(''author_id'', VStr (msg_author_id p)),
      (''author_name'', VStr (msg_author_name p)), (''content'', VStr (msg_content p)),
      (''attachments'', VList (map VStr (msg_attachments p))),
      (''channel_id'', serialize_id cid)]"]
  by (auto simp: send_message_eq_Inr intro!: exposed_from_insert_doc)

lemma grows_refl: "grows st st"
  by (simp add: grows_def)

lemma grows_trans: "grows st st1 \<Longrightarrow> grows st1 st2 \<Longrightarrow> grows st st2"
  unfolding grows_def by (metis append.assoc)

lemma grows_insert_doc: "grows st (insert_doc c d st)"
  by (simp add: grows_def colls_insert_doc)

lemma exposed_from_grows: "grows st st' \<Longrightarrow> exposed_from (colls st c) r \<Longrightarrow> exposed_from (colls st' c) r"
  unfolding grows_def exposed_from_def by (metis list_ex_append)

lemma create_server_grows: "create_server p (Some st) = Inr (r, st') \<Longrightarrow> grows st st'"
  by (auto simp: create_server_eq_Inr grows_insert_doc)

lemma create_channel_grows: "create_channel sid p (Some st) = Inr (r, st') \<Longrightarrow> grows st st'"
  by (auto simp: create_channel_eq_Inr grows_insert_doc)

lemma send_message_grows: "send_message cid p (Some st) = Inr (r, st') \<Longrightarrow> grows st st'"
  by (auto simp: send_message_eq_Inr grows_insert_doc)

lemma seed_channels_grows: "seed_channels sid names st = Inr st' \<Longrightarrow> grows st st'"
proof (induction names arbitrary: st)
  case Nil
  then show ?case by (simp add: grows_refl)
next
  case (Cons name names)
  from Cons.prems obtain r st1 where
    "create_channel sid (seed_channel name) (Some st) = Inr (r, st1)"
    "seed_channels sid names st1 = Inr st'"
    by (auto simp: and_then_eq_Inr)
  then show ?case using Cons.IH create_channel_grows grows_trans by blast
qed

lemma seed_messages_grows: "seed_messages cid ws st = Inr st' \<Longrightarrow> grows st st'"
proof (induction ws arbitrary: st)
  case Nil
  then show ?case by (simp add: grows_refl)
next
  case (Cons w ws)
  from Cons.prems obtain r st1 where
    "send_message cid (seed_message w) (Some st) = Inr (r, st1)"
    "seed_messages cid ws st1 = Inr st'"
    by (auto simp: and_then_eq_Inr)
  then show ?case using Cons.IH send_message_grows grows_trans by blast
qed

lemma ensure_channels_grows: "ensure_channels sid st = Inr st' \<Longrightarrow> grows st st'"
  by (auto simp: ensure_channels_def grows_refl split: if_splits dest: seed_channels_grows)

lemma ensure_messages_grows: "ensure_messages channels st = Inr st' \<Longrightarrow> grows st st'"
  by (auto simp: ensure_messages_def and_then_eq_Inr grows_refl split: if_splits list.splits
      dest: seed_messages_grows)

lemma find_one_in_set: "find_one c q = Some d \<Longrightarrow> d \<in> set c"
  by (auto simp: find_one_def cursor_find_def split: list.splits dest: filter_eq_ConsD)

lemma ensure_server_exposed:
  assumes "wf_store st" and "ensure_server st = Inr (r, st')"
  shows "exposed_from (colls st' ''server'') r"
proof (cases "truthy (find_one (colls st ''server'') [])")
  case True
  then obtain d where d: "find_one (colls st ''server'') [] = Some d"
    by (auto simp: truthy_def split: option.splits)
  then have "d \<in> set (colls st ''server'')" by (rule find_one_in_set)
  moreover from this have "wf_doc d"
    using wf_colls [OF assms(1), of "''server''"] by (simp add: list_all_iff)
  moreover from assms(2) True d have "r = serialize_doc (Some d)" "st' = st"
    by (simp_all add: ensure_server_def)
  ultimately show ?thesis
    unfolding exposed_from_def list_ex_iff using exposes_serialize by blast
next
  case False
  then show ?thesis
    using assms(2) by (simp add: ensure_server_def create_server_exposed)
qed

lemma seed_demo_exposed:
  assumes "wf_store st" and "seed_demo (Some st) = Inr ((server, channels), st')"
  shows "exposed_from (colls st' ''server'') server
         \<and> list_all (exposed_from (colls st' ''channel'')) channels"
proof -
  from assms(2) obtain st1 server_id st2 where
    s: "ensure_server st = Inr (server, st1)"
    and c: "ensure_channels server_id st1 = Inr st2"
    and l: "list_channels server_id (Some st2) = Inr channels"
    and m: "ensure_messages channels st2 = Inr st'"
    unfolding seed_demo_eq_Inr by blast
  from s assms(1) have e1: "exposed_from (colls st1 ''server'') server" and w1: "wf_store st1"
    using ensure_server_exposed ensure_server_wf by blast+
  from c m have g: "grows st1 st'" "grows st2 st'"
    using ensure_channels_grows ensure_messages_grows grows_trans by blast+
  from w1 c have "wf_store st2" using ensure_channels_wf by blast
  with l have "list_all (exposed_from (colls st2 ''channel'')) channels"
    using list_channels_exposed by blast
  then have "list_all (exposed_from (colls st' ''channel'')) channels"
    using exposed_from_grows [OF g(2)] by (simp add: list_all_iff)
  with e1 exposed_from_grows [OF g(1)] show ?thesis by blast
qed


text \<open>
  C7. In every store the routes can build from an empty one, every document an endpoint
  returns (the single document of a create route, each element of a list route, the
  server and each channel of the seed route) exposes a document of the collection it
  was read from: \<open>id\<close> holds the string of that document's ObjectId, and the response
  has no \<open>_id\<close> key.
\<close>

theorem responses_expose_id:
  assumes "reachable st"
  shows "(list_servers (Some st) = Inr servers \<longrightarrow>
            list_all (exposed_from (colls st ''server'')) servers)
     \<and> (create_server p (Some st) = Inr (r1, st1) \<longrightarrow> exposed_from (colls st1 ''server'') r1)
     \<and> (list_channels (VStr server_id) (Some st) = Inr channels \<longrightarrow>
            list_all (exposed_from (colls st ''channel'')) channels)
     \<and> (create_channel (VStr server_id) c (Some st) = Inr (r2, st2) \<longrightarrow>
            exposed_from (colls st2 ''channel'') r2)
     \<and> (list_messages (VStr channel_id) limit (Some st) = Inr messages \<longrightarrow>
            list_all (exposed_from (colls st ''message'')) messages)
     \<and> (send_message (VStr channel_id) m (Some st) = Inr (r3, st3) \<longrightarrow>
            exposed_from (colls st3 ''message'') r3)
     \<and> (seed_demo (Some st) = Inr ((seeded, seeded_channels), st4) \<longrightarrow>
            exposed_from (colls st4 ''server'') seeded
            \<and> list_all (exposed_from (colls st4 ''channel'')) seeded_channels)"
proof -
  from assms have wf: "wf_store st" by (rule reachable_wf)
  show ?thesis
  proof (intro conjI impI)
    assume "list_servers (Some st) = Inr servers"
    with wf show "list_all (exposed_from (colls st ''server'')) servers"
      by (rule list_servers_exposed)
  next
    assume "create_server p (Some st) = Inr (r1, st1)"
    then show "exposed_from (colls st1 ''server'') r1" by (rule create_server_exposed)
  next
    assume "list_channels (VStr server_id) (Some st) = Inr channels"
    with wf show "list_all (exposed_from (colls st ''channel'')) channels"
      by (rule list_channels_exposed)
  next
    assume "create_channel (VStr server_id) c (Some st) = Inr (r2, st2)"
    then show "exposed_from (colls st2 ''channel'') r2" by (rule create_channel_exposed)
  next
    assume "list_messages (VStr channel_id) limit (Some st) = Inr messages"
    with wf show "list_all (exposed_from (colls st ''message'')) messages"
      by (rule list_messages_exposed)
  next
    assume "send_message (VStr channel_id) m (Some st) = Inr (r3, st3)"
    then show "exposed_from (colls st3 ''message'') r3" by (rule send_message_exposed)
  next
    assume s: "seed_demo (Some st) = Inr ((seeded, seeded_channels), st4)"
    show "exposed_from (colls st4 ''server'') seeded"
      using seed_demo_exposed [OF wf s] by simp
    show "list_all (exposed_from (colls st4 ''channel'')) seeded_channels"
      using seed_demo_exposed [OF wf s] by simp
  qed
qed

theorem responses_expose_id_witness:
  "reachable (insert_doc ''server'' (stored_doc 0 0 (ServerIn_dump seed_server)) (empty_store 0 0))
   \<and> list_servers
        (Some (insert_doc ''server'' (stored_doc 0 0 (ServerIn_dump seed_server))
                 (empty_store 0 0))) =
       Inr [Some [(''name'', VStr ''VibeCord''), (''icon_url'', VNull),
                  (''description'', VStr ''A modern, minimal community''),
                  (''owner_id'', VNull), (''created_at'', VTime 0),
                  (''id'', VStr ''000000000000000000000000'')]]
   \<and> list_all
        (exposed_from
           (colls (insert_doc ''server'' (stored_doc 0 0 (ServerIn_dump seed_server))
                     (empty_store 0 0)) ''server''))
        [Some [(''name'', VStr ''VibeCord''), (''icon_url'', VNull),
               (''description'', VStr ''A modern, minimal community''),
               (''owner_id'', VNull), (''created_at'', VTime 0),
               (''id'', VStr ''000000000000000000000000'')]]
   \<and> colls (insert_doc ''server'' (stored_doc 0 0 (ServerIn_dump seed_server))
               (empty_store 0 0)) ''server'' =
       [[(''name'', VStr ''VibeCord''), (''icon_url'', VNull),
         (''description'', VStr ''A modern, minimal community''), (''owner_id'', VNull),
         (''created_at'', VTime 0), (''_id'', VOid 0)]]"
proof -
  let ?st = "insert_doc ''server'' (stored_doc 0 0 (ServerIn_dump seed_server)) (empty_store 0 0)"
  let ?r = "Some [(''name'', VStr ''VibeCord''), (''icon_url'', VNull),
                  (''description'', VStr ''A modern, minimal community''),
                  (''owner_id'', VNull), (''created_at'', VTime 0),
                  (''id'', VStr ''000000000000000000000000'')]"
  have "create_server seed_server (Some (empty_store 0 0)) = Inr (?r, ?st)"
    by (simp add: create_server_eq_Inr cursor_find_def empty_store_def seed_server_def
        opt_str_def str_oid_0)
  then have r: "reachable ?st"
    using reachable.server [OF reachable.init] by blast
  have c: "colls ?st ''server'' =
       [[(''name'', VStr ''VibeCord''), (''icon_url'', VNull),
         (''description'', VStr ''A modern, minimal community''), (''owner_id'', VNull),
         (''created_at'', VTime 0), (''_id'', VOid 0)]]"
    by (simp add: colls_insert_doc empty_store_def stored_doc_def ServerIn_dump_def
        seed_server_def opt_str_def)
  have l: "list_servers (Some ?st) = Inr [?r]"
    unfolding list_servers_def get_documents_def
    by (simp add: c cursor_find_def matches_def serialize_all_def serialize_doc_def
        serialize_item_def serialize_id_def str_oid_0)
  from responses_expose_id [OF r, where servers = "[?r]"] l have
    "list_all (exposed_from (colls ?st ''server'')) [?r]" by blast
  with r l c show ?thesis by blast
qed

section \<open>Seeding\<close>

lemma cursor_find_Nil: "cursor_find [] q = []"
  by (simp add: cursor_find_def)

lemma cursor_find_Cons:
  "cursor_find (d # c) q = (if matches q d then d # cursor_find c q else cursor_find c q)"
  by (simp add: cursor_find_def)

lemma matches_field: "matches [(k, v)] d \<longleftrightarrow> map_of d k = Some v"
  by (simp add: matches_def)

lemma map_of_stored_doc:
  "map_of (stored_doc oid t data) k =
     (if k = ''_id'' then Some (VOid oid)
      else if k = ''created_at'' then Some (VTime t) else map_of data k)"
  by (simp add: stored_doc_def update_conv')

lemma empty_store_sel:
  "colls (empty_store n t) c = []" "next_oid (empty_store n t) = n" "clock (empty_store n t) = t"
  by (simp_all add: empty_store_def)

lemma seed_channels_effect:
  "seed_channels sid names st = Inr st' \<Longrightarrow>
   \<exists>new. colls st' = (colls st)(''channel'' := colls st ''channel'' @ new)
     \<and> list_all default_channel new
     \<and> list_all (\<lambda>d. map_of d ''server_id'' = Some sid) new
     \<and> map (\<lambda>d. map_of d ''name'') new = map (\<lambda>name. Some (VStr name)) names"
proof (induction names arbitrary: st)
  case Nil
  then show ?case by (intro exI [of _ "[]"]) simp
next
  case (Cons name names)
  define d where
    "d = stored_doc (next_oid st) (clock st)
           (AList.update ''server_id'' sid (ChannelIn_dump (seed_channel name)))"
  from Cons.prems have rest: "seed_channels sid names (insert_doc ''channel'' d st) = Inr st'"
    by (auto simp: and_then_eq_Inr create_channel_eq_Inr d_def)
  from Cons.IH [OF rest] obtain new where
    new: "colls st' = (colls (insert_doc ''channel'' d st))
            (''channel'' := colls (insert_doc ''channel'' d st) ''channel'' @ new)"
      "list_all default_channel new"
      "list_all (\<lambda>d. map_of d ''server_id'' = Some sid) new"
      "map (\<lambda>d. map_of d ''name'') new = map (\<lambda>name. Some (VStr name)) names"
    by blast
  have "default_channel d" "map_of d ''server_id'' = Some sid"
    "map_of d ''name'' = Some (VStr name)"
    by (simp_all add: default_channel_def d_def map_of_stored_doc update_conv'
        ChannelIn_dump_def seed_channel_def)
  moreover have "colls st' = (colls st)(''channel'' := colls st ''channel'' @ (d # new))"
    unfolding new(1) by (simp add: insert_doc_def)
  ultimately show ?case using new(2-4) by (intro exI [of _ "d # new"]) simp
qed

lemma seed_messages_effect:
  "seed_messages cid ws st = Inr st' \<Longrightarrow>
   \<exists>new. colls st' = (colls st)(''message'' := colls st ''message'' @ new)
     \<and> list_all (welcome_message cid) new
     \<and> map (\<lambda>d. map_of d ''content'') new = map (\<lambda>w. Some (VStr w)) ws"
proof (induction ws arbitrary: st)
  case Nil
  then show ?case by (intro exI [of _ "[]"]) simp
next
  case (Cons w ws)
  define d where
    "d = stored_doc (next_oid st) (clock st)
           (AList.update ''channel_id'' cid (MessageIn_dump (seed_message w)))"
  from Cons.prems have rest: "seed_messages cid ws (insert_doc ''message'' d st) = Inr st'"
    by (auto simp: and_then_eq_Inr send_message_eq_Inr d_def)
  from Cons.IH [OF rest] obtain new where
    new: "colls st' = (colls (insert_doc ''message'' d st))
            (''message'' := colls (insert_doc ''message'' d st) ''message'' @ new)"
      "list_all (welcome_message cid) new"
      "map (\<lambda>d. map_of d ''content'') new = map (\<lambda>w. Some (VStr w)) ws"
    by blast
  have "welcome_message cid d" "map_of d ''content'' = Some (VStr w)"
    by (simp_all add: welcome_message_def d_def map_of_stored_doc update_conv'
        MessageIn_dump_def seed_message_def)
  moreover have "colls st' = (colls st)(''message'' := colls st ''message'' @ (d # new))"
    unfolding new(1) by (simp add: insert_doc_def)
  ultimately show ?case using new(2-3) by (intro exI [of _ "d # new"]) simp
qed

lemma create_server_fresh:
  "cursor_find (colls st ''server'') [(''_id'', VOid (next_oid st))] = [] \<Longrightarrow>
   create_server p (Some st) =
     Inr (serialize_doc (Some (stored_doc (next_oid st) (clock st) (ServerIn_dump p))),
          insert_doc ''server'' (stored_doc (next_oid st) (clock st) (ServerIn_dump p)) st)"
  by (simp add: create_server_eq_Inr serialize_server_doc)

lemma create_channel_fresh:
  "cursor_find (colls st ''channel'') [(''_id'', VOid (next_oid st))] = [] \<Longrightarrow>
   create_channel sid p (Some st) =
     Inr (serialize_doc (Some (stored_doc (next_oid st) (clock st)
                                 (AList.update ''server_id'' sid (ChannelIn_dump p)))),
          insert_doc ''channel''
            (stored_doc (next_oid st) (clock st)
               (AList.update ''server_id'' sid (ChannelIn_dump p))) st)"
  by (simp add: create_channel_eq_Inr serialize_channel_doc)

lemma send_message_fresh:
  "cursor_find (colls st ''message'') [(''_id'', VOid (next_oid st))] = [] \<Longrightarrow>
   send_message cid p (Some st) =
     Inr (serialize_doc (Some (stored_doc (next_oid st) (clock st)
                                 (AList.update ''channel_id'' cid (MessageIn_dump p)))),
          insert_doc ''message''
            (stored_doc (next_oid st) (clock st)
               (AList.update ''channel_id'' cid (MessageIn_dump p))) st)"
  by (simp add: send_message_eq_Inr serialize_message_doc)

lemma create_server_at:
  "next_oid st = a \<Longrightarrow> clock st = b \<Longrightarrow>
   cursor_find (colls st ''server'') [(''_id'', VOid a)] = [] \<Longrightarrow>
   create_server p (Some st) =
     Inr (serialize_doc (Some (stored_doc a b (ServerIn_dump p))),
          insert_doc ''server'' (stored_doc a b (ServerIn_dump p)) st)"
  by (auto simp: create_server_fresh)

lemma create_channel_at:
  "next_oid st = a \<Longrightarrow> clock st = b \<Longrightarrow>
   cursor_find (colls st ''channel'') [(''_id'', VOid a)] = [] \<Longrightarrow>
   create_channel sid p (Some st) =
     Inr (serialize_doc (Some (stored_doc a b (AList.update ''server_id'' sid (ChannelIn_dump p)))),
          insert_doc ''channel''
            (stored_doc a b (AList.update ''server_id'' sid (ChannelIn_dump p))) st)"
  by (auto simp: create_channel_fresh)

lemma send_message_at:
  "next_oid st = a \<Longrightarrow> clock st = b \<Longrightarrow>
   cursor_find (colls st ''message'') [(''_id'', VOid a)] = [] \<Longrightarrow>
   send_message cid p (Some st) =
     Inr (serialize_doc (Some (stored_doc a b (AList.update ''channel_id'' cid (MessageIn_dump p)))),
          insert_doc ''message''
            (stored_doc a b (AList.update ''channel_id'' cid (MessageIn_dump p))) st)"
  by (auto simp: send_message_fresh)

lemma insert_doc_sel:
  assumes "next_oid st = a" and "clock st = b"
  shows "next_oid (insert_doc c d st) = a + 1" and "clock (insert_doc c d st) = b + 1"
  using assms by (simp_all add: insert_doc_def)

lemma seed_demo_fresh:
  "\<exists>server channels st1.
     seed_demo (Some (empty_store n t)) = Inr ((server, channels), st1)
   \<and> seed_demo (Some st1) = Inr ((server, channels), st1)
   \<and> map (\<lambda>d. (map_of d ''_id'', map_of d ''name'')) (colls st1 ''server'') =
       [(Some (VOid n), Some (VStr ''VibeCord''))]
   \<and> map (\<lambda>d. (map_of d ''_id'', map_of d ''server_id'', map_of d ''name''))
         (colls st1 ''channel'') =
       [(Some (VOid (n + 1)), Some (VStr (str_oid n)), Some (VStr ''general'')),
        (Some (VOid (n + 2)), Some (VStr (str_oid n)), Some (VStr ''announcements'')),
        (Some (VOid (n + 3)), Some (VStr (str_oid n)), Some (VStr ''design'')),
        (Some (VOid (n + 4)), Some (VStr (str_oid n)), Some (VStr ''dev-talk''))]
   \<and> map (\<lambda>d. (map_of d ''channel_id'', map_of d ''content'')) (colls st1 ''message'') =
       map (\<lambda>w. (Some (VStr (str_oid (n + 1))), Some (VStr w))) welcome_texts
   \<and> length (colls st1 ''message'') = 3
   \<and> resp_field server ''id'' = Some (VStr (str_oid n))
   \<and> map (\<lambda>r. resp_field r ''id'') channels =
       [Some (VStr (str_oid (n + 1))), Some (VStr (str_oid (n + 2))),
        Some (VStr (str_oid (n + 3))), Some (VStr (str_oid (n + 4)))]"
proof -
  obtain w1 w2 w3 where w: "welcome_texts = [w1, w2, w3]"
    by (simp add: welcome_texts_def)
  define sid where "sid = VStr (str_oid n)"
  define cid where "cid = VStr (str_oid (n + 1))"
  define sd where "sd = stored_doc n t (ServerIn_dump seed_server)"
  define cd where "cd = (\<lambda>a b name. stored_doc a b
      (AList.update ''server_id'' sid (ChannelIn_dump (seed_channel name))))"
  define md where "md = (\<lambda>a b w. stored_doc a b
      (AList.update ''channel_id'' cid (MessageIn_dump (seed_message w))))"
  define s1 where "s1 = insert_doc ''server'' sd (empty_store n t)"
  define s2 where "s2 = insert_doc ''channel'' (cd (n + 1) (t + 1) ''general'') s1"
  define s3 where "s3 = insert_doc ''channel'' (cd (n + 2) (t + 2) ''announcements'') s2"
  define s4 where "s4 = insert_doc ''channel'' (cd (n + 3) (t + 3) ''design'') s3"
  define s5 where "s5 = insert_doc ''channel'' (cd (n + 4) (t + 4) ''dev-talk'') s4"
  define s6 where "s6 = insert_doc ''message'' (md (n + 5) (t + 5) w1) s5"
  define s7 where "s7 = insert_doc ''message'' (md (n + 6) (t + 6) w2) s6"
  define s8 where "s8 = insert_doc ''message'' (md (n + 7) (t + 7) w3) s7"
  have f0: "next_oid (empty_store n t) = n" "clock (empty_store n t) = t"
    by (simp_all add: empty_store_sel)
  have c1: "colls s1 ''server'' = [sd]" "colls s1 ''channel'' = []" "colls s1 ''message'' = []"
    by (simp_all add: s1_def colls_insert_doc empty_store_sel)
  have f1: "next_oid s1 = n + 1" "clock s1 = t + 1"
    unfolding s1_def using insert_doc_sel [OF f0] by simp_all
  have c2: "colls s2 ''server'' = [sd]"
    "colls s2 ''channel'' = [cd (n + 1) (t + 1) ''general'']"
    "colls s2 ''message'' = []"
    by (simp_all add: s2_def colls_insert_doc c1)
  have f2: "next_oid s2 = n + 2" "clock s2 = t + 2"
    unfolding s2_def using insert_doc_sel [OF f1] by simp_all
  have c3: "colls s3 ''server'' = [sd]"
    "colls s3 ''channel'' = [cd (n + 1) (t + 1) ''general'', cd (n + 2) (t + 2) ''announcements'']"
    "colls s3 ''message'' = []"
    by (simp_all add: s3_def colls_insert_doc c2)
  have f3: "next_oid s3 = n + 3" "clock s3 = t + 3"
    unfolding s3_def using insert_doc_sel [OF f2] by simp_all
  have c4: "colls s4 ''server'' = [sd]"
    "colls s4 ''channel'' = [cd (n + 1) (t + 1) ''general'', cd (n + 2) (t + 2) ''announcements'', cd (n + 3) (t + 3) ''design'']"
    "colls s4 ''message'' = []"
    by (simp_all add: s4_def colls_insert_doc c3)
  have f4: "next_oid s4 = n + 4" "clock s4 = t + 4"
    unfolding s4_def using insert_doc_sel [OF f3] by simp_all
  have c5: "colls s5 ''server'' = [sd]"
    "colls s5 ''channel'' = [cd (n + 1) (t + 1) ''general'', cd (n + 2) (t + 2) ''announcements'', cd (n + 3) (t + 3) ''design'', cd (n + 4) (t + 4) ''dev-talk'']"
    "colls s5 ''message'' = []"
    by (simp_all add: s5_def colls_insert_doc c4)
  have f5: "next_oid s5 = n + 5" "clock s5 = t + 5"
    unfolding s5_def using insert_doc_sel [OF f4] by simp_all
  have c6: "colls s6 ''server'' = [sd]"
    "colls s6 ''channel'' = [cd (n + 1) (t + 1) ''general'', cd (n + 2) (t + 2) ''announcements'', cd (n + 3) (t + 3) ''design'', cd (n + 4) (t + 4) ''dev-talk'']"
    "colls s6 ''message'' = [md (n + 5) (t + 5) w1]"
    by (simp_all add: s6_def colls_insert_doc c5)
  have f6: "next_oid s6 = n + 6" "clock s6 = t + 6"
    unfolding s6_def using insert_doc_sel [OF f5] by simp_all
  have c7: "colls s7 ''server'' = [sd]"
    "colls s7 ''channel'' = [cd (n + 1) (t + 1) ''general'', cd (n + 2) (t + 2) ''announcements'', cd (n + 3) (t + 3) ''design'', cd (n + 4) (t + 4) ''dev-talk'']"
    "colls s7 ''message'' = [md (n + 5) (t + 5) w1, md (n + 6) (t + 6) w2]"
    by (simp_all add: s7_def colls_insert_doc c6)
  have f7: "next_oid s7 = n + 7" "clock s7 = t + 7"
    unfolding s7_def using insert_doc_sel [OF f6] by simp_all
  have c8: "colls s8 ''server'' = [sd]"
    "colls s8 ''channel'' = [cd (n + 1) (t + 1) ''general'', cd (n + 2) (t + 2) ''announcements'', cd (n + 3) (t + 3) ''design'', cd (n + 4) (t + 4) ''dev-talk'']"
    "colls s8 ''message'' = [md (n + 5) (t + 5) w1, md (n + 6) (t + 6) w2, md (n + 7) (t + 7) w3]"
    by (simp_all add: s8_def colls_insert_doc c7)
  have f8: "next_oid s8 = n + 8" "clock s8 = t + 8"
    unfolding s8_def using insert_doc_sel [OF f7] by simp_all
  have ids: "map_of sd ''_id'' = Some (VOid n)"
    "\<And>a b name. map_of (cd a b name) ''_id'' = Some (VOid a)"
    "\<And>a b w. map_of (md a b w) ''_id'' = Some (VOid a)"
    by (simp_all add: sd_def cd_def md_def map_of_stored_doc)
  have fields: "map_of sd ''name'' = Some (VStr ''VibeCord'')"
    "\<And>a b name. map_of (cd a b name) ''server_id'' = Some sid"
    "\<And>a b name. map_of (cd a b name) ''name'' = Some (VStr name)"
    "\<And>a b w. map_of (md a b w) ''channel_id'' = Some cid"
    "\<And>a b w. map_of (md a b w) ''content'' = Some (VStr w)"
    by (simp_all add: sd_def cd_def md_def map_of_stored_doc update_conv'
        ServerIn_dump_def seed_server_def ChannelIn_dump_def seed_channel_def
        MessageIn_dump_def seed_message_def)
  have resp: "resp_field (serialize_doc (Some sd)) ''id'' = Some (VStr (str_oid n))"
    "\<And>a b name. resp_field (serialize_doc (Some (cd a b name))) ''id'' = Some (VStr (str_oid a))"
    by (simp_all add: sd_def cd_def serialize_server_doc serialize_channel_doc resp_field_def)
  note ev = cursor_find_Nil cursor_find_Cons matches_field matches_def ids fields
  have k1: "create_server seed_server (Some (empty_store n t)) = Inr (serialize_doc (Some sd), s1)"
    unfolding s1_def sd_def by (rule create_server_at [OF f0]) (simp add: empty_store_sel ev)
  have k2: "create_channel sid (seed_channel ''general'') (Some s1) =
      Inr (serialize_doc (Some (cd (n + 1) (t + 1) ''general'')), s2)"
    unfolding s2_def cd_def by (rule create_channel_at [OF f1]) (simp add: c1 ev cd_def [symmetric])
  have k3: "create_channel sid (seed_channel ''announcements'') (Some s2) =
      Inr (serialize_doc (Some (cd (n + 2) (t + 2) ''announcements'')), s3)"
    unfolding s3_def cd_def by (rule create_channel_at [OF f2]) (simp add: c2 ev cd_def [symmetric])
  have k4: "create_channel sid (seed_channel ''design'') (Some s3) =
      Inr (serialize_doc (Some (cd (n + 3) (t + 3) ''design'')), s4)"
    unfolding s4_def cd_def by (rule create_channel_at [OF f3]) (simp add: c3 ev cd_def [symmetric])
  have k5: "create_channel sid (seed_channel ''dev-talk'') (Some s4) =
      Inr (serialize_doc (Some (cd (n + 4) (t + 4) ''dev-talk'')), s5)"
    unfolding s5_def cd_def by (rule create_channel_at [OF f4]) (simp add: c4 ev cd_def [symmetric])
  have k6: "send_message cid (seed_message w1) (Some s5) =
      Inr (serialize_doc (Some (md (n + 5) (t + 5) w1)), s6)"
    unfolding s6_def md_def by (rule send_message_at [OF f5]) (simp add: c5 ev md_def [symmetric])
  have k7: "send_message cid (seed_message w2) (Some s6) =
      Inr (serialize_doc (Some (md (n + 6) (t + 6) w2)), s7)"
    unfolding s7_def md_def by (rule send_message_at [OF f6]) (simp add: c6 ev md_def [symmetric])
  have k8: "send_message cid (seed_message w3) (Some s7) =
      Inr (serialize_doc (Some (md (n + 7) (t + 7) w3)), s8)"
    unfolding s8_def md_def by (rule send_message_at [OF f7]) (simp add: c7 ev md_def [symmetric])
  define channels where "channels = serialize_all [cd (n + 1) (t + 1) ''general'', cd (n + 2) (t + 2) ''announcements'', cd (n + 3) (t + 3) ''design'', cd (n + 4) (t + 4) ''dev-talk'']"
  have e1: "ensure_server (empty_store n t) = Inr (serialize_doc (Some sd), s1)"
    by (simp add: ensure_server_def find_one_def truthy_def empty_store_sel ev k1)
  have g: "getitem (serialize_doc (Some sd)) ''id'' = Inr sid"
    using resp(1) by (auto simp: getitem_def resp_field_def sid_def split: option.splits)
  have e2: "ensure_channels sid s1 = Inr s5"
    by (simp add: ensure_channels_def count_documents_def channel_names_def c1 ev k2 k3 k4 k5)
  have l5: "list_channels sid (Some s5) = Inr channels"
    by (simp add: list_channels_def get_documents_def channels_def c5 ev)
  have gc: "getitem (hd channels) ''id'' = Inr cid"
    using resp(2) [of "n + 1" "t + 1" "''general''"]
    by (auto simp: channels_def serialize_all_def getitem_def resp_field_def cid_def
        split: option.splits)
  have ch: "channels = hd channels # tl channels"
    by (simp add: channels_def serialize_all_def)
  have e3: "ensure_messages channels s5 = Inr s8"
    unfolding ensure_messages_def
    by (subst ch) (simp add: gc count_documents_def c5 ev w k6 k7 k8)
  have first: "seed_demo (Some (empty_store n t)) = Inr ((serialize_doc (Some sd), channels), s8)"
    by (simp add: seed_demo_def e1 g e2 l5 e3)
  have sd_ne: "sd \<noteq> []"
    using ids(1) by auto
  have e1': "ensure_server s8 = Inr (serialize_doc (Some sd), s8)"
    by (simp add: ensure_server_def find_one_def truthy_def c8 ev sd_ne)
  have e2': "ensure_channels sid s8 = Inr s8"
    by (simp add: ensure_channels_def count_documents_def c8 ev)
  have l8: "list_channels sid (Some s8) = Inr channels"
    by (simp add: list_channels_def get_documents_def channels_def c8 ev)
  have e3': "ensure_messages channels s8 = Inr s8"
    unfolding ensure_messages_def
    by (subst ch) (simp add: gc count_documents_def c8 ev)
  have second: "seed_demo (Some s8) = Inr ((serialize_doc (Some sd), channels), s8)"
    by (simp add: seed_demo_def e1' g e2' l8 e3')
  have servers: "map (\<lambda>d. (map_of d ''_id'', map_of d ''name'')) (colls s8 ''server'') =
       [(Some (VOid n), Some (VStr ''VibeCord''))]"
    by (simp add: c8 ids fields)
  have chans: "map (\<lambda>d. (map_of d ''_id'', map_of d ''server_id'', map_of d ''name''))
         (colls s8 ''channel'') =
       [(Some (VOid (n + 1)), Some (VStr (str_oid n)), Some (VStr ''general'')),
        (Some (VOid (n + 2)), Some (VStr (str_oid n)), Some (VStr ''announcements'')),
        (Some (VOid (n + 3)), Some (VStr (str_oid n)), Some (VStr ''design'')),
        (Some (VOid (n + 4)), Some (VStr (str_oid n)), Some (VStr ''dev-talk''))]"
    by (simp add: c8 ids fields sid_def)
  have msgs: "map (\<lambda>d. (map_of d ''channel_id'', map_of d ''content'')) (colls s8 ''message'') =
       map (\<lambda>w. (Some (VStr (str_oid (n + 1))), Some (VStr w))) welcome_texts"
    "length (colls s8 ''message'') = 3"
    by (simp_all add: c8 ids fields cid_def w)
  have rids: "map (\<lambda>r. resp_field r ''id'') channels =
       [Some (VStr (str_oid (n + 1))), Some (VStr (str_oid (n + 2))),
        Some (VStr (str_oid (n + 3))), Some (VStr (str_oid (n + 4)))]"
    by (simp add: channels_def serialize_all_def resp)
  show ?thesis
    by (rule exI [of _ "serialize_doc (Some sd)"], rule exI [of _ channels], rule exI [of _ s8])
      (intro conjI first second servers chans msgs resp(1) rids)
qed


lemma ensure_server_colls:
  "ensure_server st = Inr (r, st1) \<Longrightarrow> c \<noteq> ''server'' \<Longrightarrow> colls st1 c = colls st c"
  by (auto simp: ensure_server_def Let_def create_server_eq_Inr colls_insert_doc split: if_splits)

lemma ensure_channels_effect:
  assumes "ensure_channels sid st = Inr st'"
  shows "\<exists>new. colls st' = (colls st)(''channel'' := colls st ''channel'' @ new)
     \<and> list_all default_channel new
     \<and> (new = [] \<or>
         map (\<lambda>d. map_of d ''name'') new = map (\<lambda>name. Some (VStr name)) channel_names)"
proof (cases "count_documents (colls st ''channel'') [(''server_id'', sid)] = 0")
  case True
  with assms have "seed_channels sid channel_names st = Inr st'"
    by (simp add: ensure_channels_def)
  from seed_channels_effect [OF this] show ?thesis by blast
next
  case False
  with assms have "st' = st" by (simp add: ensure_channels_def)
  then show ?thesis by (intro exI [of _ "[]"]) simp
qed

lemma ensure_messages_effect:
  assumes "ensure_messages channels st = Inr st'"
  shows "\<exists>new. colls st' = (colls st)(''message'' := colls st ''message'' @ new)
     \<and> (case channels of
          [] \<Rightarrow> new = []
        | first_channel # _ \<Rightarrow>
            (case resp_field first_channel ''id'' of
               None \<Rightarrow> False
             | Some first_id \<Rightarrow> list_all (welcome_message first_id) new))
     \<and> (new = [] \<or>
         map (\<lambda>d. map_of d ''content'') new = map (\<lambda>w. Some (VStr w)) welcome_texts)"
proof (cases channels)
  case Nil
  with assms have "st' = st" by (simp add: ensure_messages_def)
  with Nil show ?thesis by (intro exI [of _ "[]"]) simp
next
  case (Cons first_channel rest)
  with assms obtain first_id where
    g: "getitem first_channel ''id'' = Inr first_id"
    and r: "(if count_documents (colls st ''message'') [(''channel_id'', first_id)] = 0
             then seed_messages first_id welcome_texts st else Inr st) = Inr st'"
    by (auto simp: ensure_messages_def and_then_eq_Inr)
  from g have f: "resp_field first_channel ''id'' = Some first_id"
    by (auto simp: getitem_def resp_field_def split: option.splits)
  show ?thesis
  proof (cases "count_documents (colls st ''message'') [(''channel_id'', first_id)] = 0")
    case True
    with r have "seed_messages first_id welcome_texts st = Inr st'" by simp
    from seed_messages_effect [OF this] show ?thesis
      unfolding Cons by (auto simp: f)
  next
    case False
    with r have "st' = st" by simp
    then show ?thesis unfolding Cons by (intro exI [of _ "[]"]) (simp add: f)
  qed
qed

text \<open>
  C10. Whatever the store, when \<open>POST /api/seed\<close> succeeds the documents it has created
  are the ones it appended to the collections. Every Channel it created has \<open>type\<close>
  \<open>"text"\<close> and \<open>is_private\<close> false, and they are none or the four named ones; every
  Message it created has \<open>author_id\<close> \<open>"seed"\<close>, \<open>author_name\<close> \<open>"System"\<close>, empty
  \<open>attachments\<close>, and as \<open>channel_id\<close> the \<open>id\<close> of the first channel of the returned
  listing, and they are none or the three welcome texts.
\<close>

theorem seed_demo_defaults:
  assumes "seed_demo (Some st) = Inr ((server, channels), st')"
  shows "\<exists>new_channels new_messages.
      colls st' ''channel'' = colls st ''channel'' @ new_channels
    \<and> list_all default_channel new_channels
    \<and> (new_channels = [] \<or>
        map (\<lambda>d. map_of d ''name'') new_channels = map (\<lambda>name. Some (VStr name)) channel_names)
    \<and> colls st' ''message'' = colls st ''message'' @ new_messages
    \<and> (case channels of
          [] \<Rightarrow> new_messages = []
        | first_channel # _ \<Rightarrow>
            (case resp_field first_channel ''id'' of
               None \<Rightarrow> False
             | Some first_id \<Rightarrow> list_all (welcome_message first_id) new_messages))
    \<and> (new_messages = [] \<or>
        map (\<lambda>d. map_of d ''content'') new_messages = map (\<lambda>w. Some (VStr w)) welcome_texts)"
proof -
  from assms obtain st1 server_id st2 where
    s: "ensure_server st = Inr (server, st1)"
    and c: "ensure_channels server_id st1 = Inr st2"
    and m: "ensure_messages channels st2 = Inr st'"
    unfolding seed_demo_eq_Inr by blast
  from ensure_channels_effect [OF c] obtain new_channels where
    nc: "colls st2 = (colls st1)(''channel'' := colls st1 ''channel'' @ new_channels)"
      "list_all default_channel new_channels"
      "new_channels = [] \<or>
        map (\<lambda>d. map_of d ''name'') new_channels = map (\<lambda>name. Some (VStr name)) channel_names"
    by blast
  from ensure_messages_effect [OF m] obtain new_messages where
    nm: "colls st' = (colls st2)(''message'' := colls st2 ''message'' @ new_messages)"
      "case channels of
          [] \<Rightarrow> new_messages = []
        | first_channel # _ \<Rightarrow>
            (case resp_field first_channel ''id'' of
               None \<Rightarrow> False
             | Some first_id \<Rightarrow> list_all (welcome_message first_id) new_messages)"
      "new_messages = [] \<or>
        map (\<lambda>d. map_of d ''content'') new_messages = map (\<lambda>w. Some (VStr w)) welcome_texts"
    by blast
  have "colls st' ''channel'' = colls st ''channel'' @ new_channels"
    by (simp add: nm(1) nc(1) ensure_server_colls [OF s])
  moreover have "colls st' ''message'' = colls st ''message'' @ new_messages"
    by (simp add: nm(1) nc(1) ensure_server_colls [OF s])
  ultimately show ?thesis
    by (intro exI [of _ new_channels] exI [of _ new_messages] conjI nc(2) nc(3) nm(2) nm(3))
qed

theorem seed_demo_defaults_witness:
  "\<exists>server channels st'.
      seed_demo (Some (empty_store 0 0)) = Inr ((server, channels), st')
    \<and> map (\<lambda>r. resp_field r ''id'') channels =
        [Some (VStr (str_oid 1)), Some (VStr (str_oid 2)),
         Some (VStr (str_oid 3)), Some (VStr (str_oid 4))]
    \<and> map (\<lambda>d. map_of d ''name'') (colls st' ''channel'') =
        [Some (VStr ''general''), Some (VStr ''announcements''), Some (VStr ''design''),
         Some (VStr ''dev-talk'')]
    \<and> list_all default_channel (colls st' ''channel'')
    \<and> length (colls st' ''message'') = 3
    \<and> list_all (welcome_message (VStr (str_oid 1))) (colls st' ''message'')"
proof -
  from seed_demo_fresh [of 0 0] obtain server channels st' where
    s: "seed_demo (Some (empty_store 0 0)) = Inr ((server, channels), st')"
    and c: "map (\<lambda>d. (map_of d ''_id'', map_of d ''server_id'', map_of d ''name''))
         (colls st' ''channel'') =
       [(Some (VOid (0 + 1)), Some (VStr (str_oid 0)), Some (VStr ''general'')),
        (Some (VOid (0 + 2)), Some (VStr (str_oid 0)), Some (VStr ''announcements'')),
        (Some (VOid (0 + 3)), Some (VStr (str_oid 0)), Some (VStr ''design'')),
        (Some (VOid (0 + 4)), Some (VStr (str_oid 0)), Some (VStr ''dev-talk''))]"
    and l: "length (colls st' ''message'') = 3"
    and r: "map (\<lambda>r. resp_field r ''id'') channels =
       [Some (VStr (str_oid (0 + 1))), Some (VStr (str_oid (0 + 2))),
        Some (VStr (str_oid (0 + 3))), Some (VStr (str_oid (0 + 4)))]"
    by (elim exE conjE) (rule that)
  from r obtain first_channel rest where
    ch: "channels = first_channel # rest"
    and f: "resp_field first_channel ''id'' = Some (VStr (str_oid 1))"
    by (cases channels) auto
  from seed_demo_defaults [OF s] have
    "list_all default_channel (colls st' ''channel'')
     \<and> list_all (welcome_message (VStr (str_oid 1))) (colls st' ''message'')"
    by (auto simp: ch f empty_store_sel)
  moreover have "map (\<lambda>d. map_of d ''name'') (colls st' ''channel'') =
        [Some (VStr ''general''), Some (VStr ''announcements''), Some (VStr ''design''),
         Some (VStr ''dev-talk'')]"
    using arg_cong [OF c, of "map (\<lambda>x. snd (snd x))"] by (simp add: comp_def)
  ultimately show ?thesis
    using s r l by (intro exI [of _ server] exI [of _ channels] exI [of _ st']) simp
qed

end
